theory Spec2Isabelle
  imports Complex_Main
begin

section \<open>Values of the Python program\<close>

text \<open>
  A Python \<open>str\<close> is a \<open>string\<close>; a character stands for the code point of the same
  number (the range below 256). A Python \<open>float\<close> is an IEEE double: \<open>Fin r\<close> is the
  finite double whose exact value is \<open>r\<close>, next to the two infinities and NaN. The program
  only compares floats and stores them, it never computes with them.
\<close>

datatype pyfloat = Fin real | PInf | NInf | NaN

text \<open>The comparisons \<open>a < b\<close> and \<open>a <= b\<close> of two floats; every comparison with NaN is false.\<close>

fun py_lt :: "pyfloat \<Rightarrow> pyfloat \<Rightarrow> bool" where
  "py_lt NaN _ = False"
| "py_lt _ NaN = False"
| "py_lt (Fin a) (Fin b) = (a < b)"
| "py_lt NInf NInf = False"
| "py_lt NInf _ = True"
| "py_lt PInf _ = False"
| "py_lt (Fin _) PInf = True"
| "py_lt (Fin _) NInf = False"



text \<open>The literal \<open>0.3\<close>: the double nearest to three tenths.\<close>

definition float_0_3 :: pyfloat where
  "float_0_3 = Fin (5404319552844595 / 18014398509481984)"

text \<open>
  What \<open>json.loads\<close> returns: \<open>None\<close>, a bool, an int, a float, a str, a list or a dict
  with str keys (an association list read with \<open>map_of\<close>).
\<close>

datatype json =
    JNull
  | JBool bool
  | JInt int
  | JFloat pyfloat
  | JString string
  | JArray "json list"
  | JObject "(string \<times> json) list"

text \<open>
  Every exception the program can meet, one constructor for each place that raises.
  \<open>JSONDecodeError\<close> is the only class the handlers tell apart from the rest.
  \<open>MissingFields\<close> and \<open>InvalidCategory\<close> are the two \<open>ValueError\<close>s the nodes raise,
  \<open>ApiKeyNotFound\<close> is the \<open>ValueError\<close> of \<open>get_api_key\<close> and \<open>UnsupportedProvider\<close>
  the one of \<open>get_llm\<close>. \<open>NotAContainer\<close> and \<open>NotSubscriptable\<close> are the
  \<open>TypeError\<close>s of \<open>in\<close> and of \<open>[...]\<close> on a value that supports neither,
  \<open>FloatConversion\<close> is what \<open>float()\<close> raises, \<open>NoSuchEdge\<close> and
  \<open>GraphRecursionError\<close> belong to the graph engine. \<open>CapabilityError\<close> is any other
  exception raised by the model call, with its text.
\<close>

datatype exn =
    JSONDecodeError
  | MissingFields json
  | InvalidCategory json
  | ApiKeyNotFound string
  | UnsupportedProvider string
  | NotAContainer json
  | NotSubscriptable json
  | KeyError string
  | FloatConversion json
  | UnboundLocalError string
  | NoSuchEdge string
  | GraphRecursionError
  | CapabilityError string

text \<open>
  The behaviour of the interpreter and of the standard library that the program calls
  and that is not its own code: \<open>json.loads\<close> on a text (\<open>None\<close>: it raises
  \<open>JSONDecodeError\<close>), \<open>float()\<close> on a value that is not a float already (\<open>None\<close>: it
  raises) and the text \<open>str(e)\<close> of an exception.
\<close>

record runtime =
  json_loads :: "string \<Rightarrow> json option"
  float_conv :: "json \<Rightarrow> pyfloat option"
  str_exn :: "exn \<Rightarrow> string"

section \<open>Settings (config/settings.py)\<close>

record settings =
  llm_provider :: string
  gemini_api_key :: "string option"
  openai_api_key :: "string option"
  anthropic_api_key :: "string option"
  high_confidence_threshold :: pyfloat
  low_confidence_threshold :: pyfloat

text \<open>The defaults of the class \<open>Settings\<close>, with no key set.\<close>

definition default_settings :: settings where
  "default_settings =
     \<lparr> llm_provider = ''gemini'',
       gemini_api_key = None, openai_api_key = None, anthropic_api_key = None,
       high_confidence_threshold = Fin (3 / 4),
       low_confidence_threshold = Fin (1 / 2) \<rparr>"

definition key_map :: "settings \<Rightarrow> (string \<times> string option) list" where
  "key_map cfg =
     [(''gemini'', gemini_api_key cfg),
      (''openai'', openai_api_key cfg),
      (''anthropic'', anthropic_api_key cfg)]"

text \<open>\<open>not api_key\<close> holds for \<open>None\<close> and for the empty string.\<close>

definition get_api_key :: "settings \<Rightarrow> exn + string" where
  "get_api_key cfg =
     (case map_of (key_map cfg) (llm_provider cfg) of
        None \<Rightarrow> Inl (ApiKeyNotFound (llm_provider cfg))
      | Some None \<Rightarrow> Inl (ApiKeyNotFound (llm_provider cfg))
      | Some (Some k) \<Rightarrow> if k = [] then Inl (ApiKeyNotFound (llm_provider cfg)) else Inr k)"

section \<open>The workflow (workflows/email\_classifier.py)\<close>

record state =
  email_id :: string
  subject :: string
  body :: string
  sender :: string
  category :: string
  confidence :: pyfloat
  reasoning :: json
  "keywords" :: json
  retry_count :: int
  processing_stage :: string

subsection \<open>get\_llm\<close>

text \<open>
  The client object that \<open>get_llm\<close> builds is represented by the provider it was built
  for and the key it was given; what the client answers is the \<open>completion\<close> below.
\<close>

datatype client = ChatGoogleGenerativeAI string | ChatOpenAI string | ChatAnthropic string

definition get_llm :: "settings \<Rightarrow> exn + client" where
  "get_llm cfg =
     (case get_api_key cfg of
        Inl e \<Rightarrow> Inl e
      | Inr api_key \<Rightarrow>
          if llm_provider cfg = ''gemini'' then Inr (ChatGoogleGenerativeAI api_key)
          else if llm_provider cfg = ''openai'' then Inr (ChatOpenAI api_key)
          else if llm_provider cfg = ''anthropic'' then Inr (ChatAnthropic api_key)
          else Inl (UnsupportedProvider (llm_provider cfg)))"

subsection \<open>clean\_json\_response\<close>

text \<open>The characters \<open>str.strip()\<close> removes: those for which \<open>str.isspace\<close> holds.\<close>

definition is_space :: "char \<Rightarrow> bool" where
  "is_space c = ((of_char c :: nat) \<in> {9, 10, 11, 12, 13, 28, 29, 30, 31, 32, 133, 160})"

definition strip :: "string \<Rightarrow> string" where
  "strip s = rev (dropWhile is_space (rev (dropWhile is_space s)))"

definition startswith :: "string \<Rightarrow> string \<Rightarrow> bool" where
  "startswith s p = (take (length p) s = p)"

definition endswith :: "string \<Rightarrow> string \<Rightarrow> bool" where
  "endswith s p = (length p \<le> length s \<and> drop (length s - length p) s = p)"

definition clean_json_response :: "string \<Rightarrow> string" where
  "clean_json_response content =
     (let c1 = strip content;
          c2 = (if startswith c1 ''```json'' then drop 7 c1
                else if startswith c1 ''```'' then drop 3 c1
                else c1);
          c3 = (if endswith c2 ''```'' then take (length c2 - 3) c2 else c2)
      in strip c3)"

subsection \<open>Operations on a parsed value\<close>

text \<open>\<open>field in result\<close>: a key of a dict, an element of a list, a substring of a str;
  a \<open>TypeError\<close> on anything else.\<close>

fun is_substring :: "string \<Rightarrow> string \<Rightarrow> bool" where
  "is_substring p [] = (p = [])"
| "is_substring p (c # cs) = (take (length p) (c # cs) = p \<or> is_substring p cs)"

fun py_contains :: "json \<Rightarrow> string \<Rightarrow> exn + bool" where
  "py_contains (JObject kvs) k = Inr (map_of kvs k \<noteq> None)"
| "py_contains (JArray xs) k = Inr (JString k \<in> set xs)"
| "py_contains (JString s) k = Inr (is_substring k s)"
| "py_contains v k = Inl (NotAContainer v)"

text \<open>\<open>all(field in result for field in required_fields)\<close>, left to right, stopping at
  the first field that is not there.\<close>

fun all_fields_in :: "json \<Rightarrow> string list \<Rightarrow> exn + bool" where
  "all_fields_in v [] = Inr True"
| "all_fields_in v (k # ks) =
     (case py_contains v k of
        Inl e \<Rightarrow> Inl e
      | Inr False \<Rightarrow> Inr False
      | Inr True \<Rightarrow> all_fields_in v ks)"

text \<open>\<open>result[key]\<close> with a str key: the value in a dict, \<open>KeyError\<close> when the key is
  missing, a \<open>TypeError\<close> on anything that is not a dict.\<close>

fun py_getitem :: "json \<Rightarrow> string \<Rightarrow> exn + json" where
  "py_getitem (JObject kvs) k = (case map_of kvs k of None \<Rightarrow> Inl (KeyError k) | Some v \<Rightarrow> Inr v)"
| "py_getitem v k = Inl (NotSubscriptable v)"

text \<open>\<open>float(v)\<close>.\<close>

fun py_float :: "runtime \<Rightarrow> json \<Rightarrow> exn + pyfloat" where
  "py_float rt (JFloat f) = Inr f"
| "py_float rt v = (case float_conv rt v of None \<Rightarrow> Inl (FloatConversion v) | Some f \<Rightarrow> Inr f)"

definition valid_categories :: "string list" where
  "valid_categories = [''spam'', ''important'', ''neutral'']"

text \<open>\<open>v in valid_categories\<close>: only a str is equal to a str.\<close>

fun in_valid_categories :: "json \<Rightarrow> bool" where
  "in_valid_categories (JString c) = (c \<in> set valid_categories)"
| "in_valid_categories v = False"

fun the_str :: "json \<Rightarrow> string" where
  "the_str (JString c) = c"
| "the_str v = []"

subsection \<open>The model call\<close>

text \<open>
  One call \<open>await llm.ainvoke(messages)\<close> either raises an exception (of a class that
  \<open>except Exception\<close> catches) or returns a response whose \<open>content\<close> is a text. The
  two prompts are arguments of the call only, so a call is represented by what it does;
  the theorems range over every such behaviour.
\<close>

datatype completion = Failed exn | Replied string

definition required_fields :: "string list" where
  "required_fields = [''category'', ''confidence'', ''reasoning'', ''keywords'']"

subsection \<open>classify\_email\_node\<close>

text \<open>The body of the \<open>try\<close> block: the new state, or the exception that left the block.\<close>

definition classify_try :: "runtime \<Rightarrow> completion \<Rightarrow> state \<Rightarrow> exn + state" where
  "classify_try rt resp s =
     (case resp of
        Failed e \<Rightarrow> Inl e
      | Replied text \<Rightarrow>
          (case json_loads rt (clean_json_response text) of
             None \<Rightarrow> Inl JSONDecodeError
           | Some result \<Rightarrow>
               (case all_fields_in result required_fields of
                  Inl e \<Rightarrow> Inl e
                | Inr False \<Rightarrow> Inl (MissingFields result)
                | Inr True \<Rightarrow>
                    (case py_getitem result ''category'' of
                       Inl e \<Rightarrow> Inl e
                     | Inr cat \<Rightarrow>
                         if \<not> in_valid_categories cat then Inl (InvalidCategory cat)
                         else
                           (case py_getitem result ''confidence'' of
                              Inl e \<Rightarrow> Inl e
                            | Inr conf \<Rightarrow>
                                (case py_float rt conf of
                                   Inl e \<Rightarrow> Inl e
                                 | Inr f \<Rightarrow>
                                     (case py_getitem result ''reasoning'' of
                                        Inl e \<Rightarrow> Inl e
                                      | Inr rsn \<Rightarrow>
                                          (case py_getitem result ''keywords'' of
                                             Inl e \<Rightarrow> Inl e
                                           | Inr kws \<Rightarrow>
                                               Inr (s\<lparr> category := the_str cat,
                                                       confidence := f,
                                                       reasoning := rsn,
                                                       keywords := kws,
                                                       processing_stage := ''classified'' \<rparr>)))))))))"

text \<open>
  The node: \<open>get_llm()\<close> is called before the \<open>try\<close>. The first handler formats
  \<open>response.content\<close> into its log line, and \<open>response\<close> is bound only when the call
  returned.
\<close>

definition classify_email_node :: "runtime \<Rightarrow> settings \<Rightarrow> completion \<Rightarrow> state \<Rightarrow> exn + state" where
  "classify_email_node rt cfg resp s =
     (case get_llm cfg of
        Inl e \<Rightarrow> Inl e
      | Inr llm \<Rightarrow>
          (case classify_try rt resp s of
             Inr s' \<Rightarrow> Inr s'
           | Inl JSONDecodeError \<Rightarrow>
               (case resp of
                  Failed _ \<Rightarrow> Inl (UnboundLocalError ''response'')
                | Replied _ \<Rightarrow>
                    Inr (s\<lparr> category := ''neutral'',
                            confidence := float_0_3,
                            reasoning := JString ''Unable to parse LLM response'',
                            keywords := JArray [],
                            processing_stage := ''error_json_parse'' \<rparr>))
           | Inl e \<Rightarrow>
               Inr (s\<lparr> category := ''neutral'',
                       confidence := float_0_3,
                       reasoning := JString (''Error during classification: '' @ take 100 (str_exn rt e)),
                       keywords := JArray [],
                       processing_stage := ''error'' \<rparr>)))"

subsection \<open>reanalyze\_node\<close>

definition reanalyze_try :: "runtime \<Rightarrow> completion \<Rightarrow> state \<Rightarrow> exn + state" where
  "reanalyze_try rt resp s =
     (case resp of
        Failed e \<Rightarrow> Inl e
      | Replied text \<Rightarrow>
          (case json_loads rt (clean_json_response text) of
             None \<Rightarrow> Inl JSONDecodeError
           | Some result \<Rightarrow>
               (case py_getitem result ''category'' of
                  Inl e \<Rightarrow> Inl e
                | Inr cat \<Rightarrow>
                    if \<not> in_valid_categories cat then Inl (InvalidCategory cat)
                    else
                      (case py_getitem result ''confidence'' of
                         Inl e \<Rightarrow> Inl e
                       | Inr conf \<Rightarrow>
                           (case py_float rt conf of
                              Inl e \<Rightarrow> Inl e
                            | Inr f \<Rightarrow>
                                (case py_getitem result ''reasoning'' of
                                   Inl e \<Rightarrow> Inl e
                                 | Inr rsn \<Rightarrow>
                                     (case py_getitem result ''keywords'' of
                                        Inl e \<Rightarrow> Inl e
                                      | Inr kws \<Rightarrow>
                                          Inr (s\<lparr> category := the_str cat,
                                                  confidence := f,
                                                  reasoning := rsn,
                                                  keywords := kws,
                                                  retry_count := retry_count s + 1,
                                                  processing_stage := ''reanalyzed'' \<rparr>))))))))"

definition reanalyze_node :: "runtime \<Rightarrow> settings \<Rightarrow> completion \<Rightarrow> state \<Rightarrow> exn + state" where
  "reanalyze_node rt cfg resp s =
     (case get_llm cfg of
        Inl e \<Rightarrow> Inl e
      | Inr llm \<Rightarrow>
          (case reanalyze_try rt resp s of
             Inr s' \<Rightarrow> Inr s'
           | Inl e \<Rightarrow>
               Inr (s\<lparr> retry_count := retry_count s + 1,
                       processing_stage := ''reanalysis_failed'' \<rparr>)))"

subsection \<open>should\_reanalyze\<close>

definition should_reanalyze :: "settings \<Rightarrow> state \<Rightarrow> string" where
  "should_reanalyze cfg s =
     (if retry_count s \<ge> 1 then ''max_retries''
      else if py_lt (confidence s) (low_confidence_threshold cfg) then ''reanalyze''
      else ''end'')"

subsection \<open>create\_classification\_workflow\<close>

text \<open>
  The graph that the function builds: two nodes, the entry point, the conditional edges
  out of \<open>classify\<close> with their table from the router's answer to the next node, and the
  plain edge from \<open>reanalyze\<close> to \<open>END\<close>.
\<close>

datatype node = Classify | Reanalyze | END

definition entry_point :: node where
  "entry_point = Classify"

definition conditional_edges :: "(string \<times> node) list" where
  "conditional_edges = [(''reanalyze'', Reanalyze), (''end'', END), (''max_retries'', END)]"

fun next_node :: "settings \<Rightarrow> node \<Rightarrow> state \<Rightarrow> exn + node" where
  "next_node cfg Classify s =
     (case map_of conditional_edges (should_reanalyze cfg s) of
        None \<Rightarrow> Inl (NoSuchEdge (should_reanalyze cfg s))
      | Some n \<Rightarrow> Inr n)"
| "next_node cfg Reanalyze s = Inr END"
| "next_node cfg END s = Inr END"

text \<open>
  A node takes the answer of the next model call. \<open>llm i\<close> is what the \<open>i\<close>-th model call
  of the run does.
\<close>

fun run_node :: "runtime \<Rightarrow> settings \<Rightarrow> node \<Rightarrow> completion \<Rightarrow> state \<Rightarrow> exn + state" where
  "run_node rt cfg Classify resp s = classify_email_node rt cfg resp s"
| "run_node rt cfg Reanalyze resp s = reanalyze_node rt cfg resp s"
| "run_node rt cfg END resp s = Inr s"

text \<open>
  \<open>workflow.ainvoke\<close>: the graph engine runs the current node, follows the edge, and stops
  at \<open>END\<close>; it gives up with \<open>GraphRecursionError\<close> after \<open>limit\<close> steps (25 unless
  configured). The result is the final state with the list of the nodes that ran.
\<close>

fun ainvoke :: "nat \<Rightarrow> runtime \<Rightarrow> settings \<Rightarrow> (nat \<Rightarrow> completion) \<Rightarrow> node \<Rightarrow> node list \<Rightarrow> state
    \<Rightarrow> exn + (state \<times> node list)" where
  "ainvoke limit rt cfg llm END trace s = Inr (s, trace)"
| "ainvoke 0 rt cfg llm n trace s = Inl GraphRecursionError"
| "ainvoke (Suc limit) rt cfg llm n trace s =
     (case run_node rt cfg n (llm (length trace)) s of
        Inl e \<Rightarrow> Inl e
      | Inr s' \<Rightarrow>
          (case next_node cfg n s' of
             Inl e \<Rightarrow> Inl e
           | Inr n' \<Rightarrow> ainvoke limit rt cfg llm n' (trace @ [n]) s'))"

definition recursion_limit :: nat where
  "recursion_limit = 25"

subsection \<open>classify\_email\<close>

definition initial_state :: "string \<Rightarrow> string \<Rightarrow> string \<Rightarrow> string \<Rightarrow> state" where
  "initial_state eid subj bdy sndr =
     \<lparr> email_id = eid, subject = subj, body = bdy, sender = sndr,
       category = [], confidence = Fin 0, reasoning = JString [], keywords = JArray [],
       retry_count = 0, processing_stage = ''initialized'' \<rparr>"

definition run_workflow :: "runtime \<Rightarrow> settings \<Rightarrow> (nat \<Rightarrow> completion) \<Rightarrow> state \<Rightarrow> exn + (state \<times> node list)" where
  "run_workflow rt cfg llm s = ainvoke recursion_limit rt cfg llm entry_point [] s"

text \<open>The dict that is returned, as the list of its items in the order they are written.\<close>

definition classify_email ::
  "runtime \<Rightarrow> settings \<Rightarrow> (nat \<Rightarrow> completion) \<Rightarrow> string \<Rightarrow> string \<Rightarrow> string \<Rightarrow> string
     \<Rightarrow> exn + (string \<times> json) list" where
  "classify_email rt cfg llm eid subj bdy sndr =
     (case run_workflow rt cfg llm (initial_state eid subj bdy sndr) of
        Inl e \<Rightarrow> Inl e
      | Inr (final_state, trace) \<Rightarrow>
          Inr [(''email_id'', JString (email_id final_state)),
               (''category'', JString (category final_state)),
               (''confidence'', JFloat (confidence final_state)),
               (''reasoning'', reasoning final_state),
               (''keywords'', keywords final_state),
               (''processing_stage'', JString (processing_stage final_state))])"

section \<open>Worked inputs\<close>

text \<open>
  Model answers used in the examples below, with the value \<open>json.loads\<close> gives for each.
  The confidences are doubles with an exact binary value. \<open>sample_loads\<close> agrees with
  \<open>json.loads\<close> on these answers and is applied to no other text.
\<close>

definition reply_spam :: string where
  \<open>reply_spam = ''{"category": "spam", "confidence": 0.75, "reasoning": "prize", "keywords": ["won"]}''\<close>

definition reply_low :: string where
  \<open>reply_low = ''```json {"category": "neutral", "confidence": 0.25, "reasoning": "unclear", "keywords": []} ```''\<close>

definition reply_over :: string where
  \<open>reply_over = ''{"category": "spam", "confidence": 1.5, "reasoning": "sure", "keywords": []}''\<close>

definition reply_phishing :: string where
  \<open>reply_phishing = ''{"category": "phishing", "confidence": 0.75, "reasoning": "link", "keywords": ["link"]}''\<close>

definition reply_partial :: string where
  \<open>reply_partial = ''{"category": "spam"}''\<close>

definition reply_prose :: string where
  "reply_prose = ''I think this is spam because it mentions prizes.''"

definition sample_loads :: "string \<Rightarrow> json option" where
  \<open>sample_loads text =
     (if text = ''{"category": "spam", "confidence": 0.75, "reasoning": "prize", "keywords": ["won"]}'' then
        Some (JObject [(''category'', JString ''spam''), (''confidence'', JFloat (Fin (3 / 4))),
                       (''reasoning'', JString ''prize''), (''keywords'', JArray [JString ''won''])])
      else if text = ''{"category": "neutral", "confidence": 0.25, "reasoning": "unclear", "keywords": []}'' then
        Some (JObject [(''category'', JString ''neutral''), (''confidence'', JFloat (Fin (1 / 4))),
                       (''reasoning'', JString ''unclear''), (''keywords'', JArray [])])
      else if text = ''{"category": "spam", "confidence": 1.5, "reasoning": "sure", "keywords": []}'' then
        Some (JObject [(''category'', JString ''spam''), (''confidence'', JFloat (Fin (3 / 2))),
                       (''reasoning'', JString ''sure''), (''keywords'', JArray [])])
      else if text = ''{"category": "phishing", "confidence": 0.75, "reasoning": "link", "keywords": ["link"]}'' then
        Some (JObject [(''category'', JString ''phishing''), (''confidence'', JFloat (Fin (3 / 4))),
                       (''reasoning'', JString ''link''), (''keywords'', JArray [JString ''link''])])
      else if text = ''{"category": "spam"}'' then
        Some (JObject [(''category'', JString ''spam'')])
      else None)\<close>

text \<open>\<open>float(True)\<close> is 1.0, \<open>float(False)\<close> is 0.0, \<open>float(None)\<close> raises.\<close>

fun sample_float_conv :: "json \<Rightarrow> pyfloat option" where
  "sample_float_conv (JBool b) = Some (Fin (if b then 1 else 0))"
| "sample_float_conv v = None"

fun sample_str_exn :: "exn \<Rightarrow> string" where
  "sample_str_exn (CapabilityError m) = m"
| "sample_str_exn e = ''error''"

definition sample_runtime :: runtime where
  "sample_runtime =
     \<lparr> json_loads = sample_loads, float_conv = sample_float_conv, str_exn = sample_str_exn \<rparr>"

definition sample_settings :: settings where
  "sample_settings = default_settings\<lparr> gemini_api_key := Some ''test-key'' \<rparr>"

definition sample_state :: state where
  "sample_state =
     initial_state ''test_001'' ''URGENT: You won'' ''Click here NOW to claim your prize!''
       ''scam@fake-lottery.com''"

text \<open>The state after a confident and after a low-confidence classification, and a run
  whose first model call answers with low confidence and whose second call fails.\<close>

definition classified_spam :: state where
  "classified_spam =
     sample_state\<lparr> category := ''spam'', confidence := Fin (3 / 4), reasoning := JString ''prize'',
                   keywords := JArray [JString ''won''], processing_stage := ''classified'' \<rparr>"

definition classified_low :: state where
  "classified_low =
     sample_state\<lparr> category := ''neutral'', confidence := Fin (1 / 4),
                   reasoning := JString ''unclear'', keywords := JArray [],
                   processing_stage := ''classified'' \<rparr>"

definition low_then_quota :: "nat \<Rightarrow> completion" where
  "low_then_quota i = (if i = 0 then Replied reply_low else Failed (CapabilityError ''API quota exceeded''))"

section \<open>Properties of the helpers\<close>

subsection \<open>Stripping\<close>

lemma dropWhile_strip: "dropWhile is_space (strip s) = strip s"
proof -
  let ?a = "dropWhile is_space s"
  let ?b = "dropWhile is_space (rev ?a)"
  show ?thesis
  proof (cases "?b = []")
    case True
    have "strip s = []" unfolding strip_def True by simp
    then show ?thesis by simp
  next
    case False
    have "\<exists>p. rev ?a = p @ ?b" by (metis takeWhile_dropWhile_id)
    then obtain p where p: "rev ?a = p @ ?b" by blast
    have "last ?b = last (rev ?a)" using p False by (metis last_appendR)
    also have "\<dots> = hd ?a" using p False by (metis append_is_Nil_conv last_rev rev_is_Nil_conv)
    finally have l: "last ?b = hd ?a" .
    have ne: "?a \<noteq> []"
    proof
      assume e: "?a = []"
      have "?b = []" unfolding e by simp
      with False show False by blast
    qed
    have "\<not> is_space (hd ?a)" using ne by (metis hd_dropWhile)
    then have "\<not> is_space (hd (rev ?b))" using l False by (simp add: hd_rev)
    then have "dropWhile is_space (rev ?b) = rev ?b" using False by (cases "rev ?b") auto
    then show ?thesis by (simp add: strip_def)
  qed
qed

lemma strip_idem: "strip (strip s) = strip s"
proof -
  have "strip (strip s) = rev (dropWhile is_space (rev (strip s)))"
    using dropWhile_strip[of s] by (simp add: strip_def)
  also have "rev (strip s) = dropWhile is_space (rev (dropWhile is_space s))" by (simp add: strip_def)
  also have "dropWhile is_space (dropWhile is_space (rev (dropWhile is_space s))) = dropWhile is_space (rev (dropWhile is_space s))"
    by (rule dropWhile_idem)
  finally show ?thesis by (simp add: strip_def)
qed

lemma strip_segment: "\<exists>pre post. s = pre @ strip s @ post"
proof -
  let ?a = "dropWhile is_space s"
  have 1: "s = takeWhile is_space s @ ?a" by simp
  have "rev ?a = takeWhile is_space (rev ?a) @ dropWhile is_space (rev ?a)" by simp
  then have "?a = rev (dropWhile is_space (rev ?a)) @ rev (takeWhile is_space (rev ?a))"
    by (metis rev_append rev_rev_ident)
  then have 2: "?a = strip s @ rev (takeWhile is_space (rev ?a))" unfolding strip_def .
  show ?thesis using 1 2 by metis
qed

lemma length_strip_le: "length (strip s) \<le> length s"
proof -
  have "length (strip s) \<le> length (dropWhile is_space s)"
    unfolding strip_def by (metis length_dropWhile_le length_rev)
  also have "\<dots> \<le> length s" by (rule length_dropWhile_le)
  finally show ?thesis .
qed

lemma strip_clean: "strip (clean_json_response x) = clean_json_response x"
  by (simp add: clean_json_response_def Let_def strip_idem)

lemma startswith_iff: "startswith s p \<longleftrightarrow> (\<exists>r. s = p @ r)"
proof
  assume "startswith s p"
  then have "take (length p) s = p" unfolding startswith_def .
  then have "s = p @ drop (length p) s" by (metis append_take_drop_id)
  then show "\<exists>r. s = p @ r" ..
next
  assume "\<exists>r. s = p @ r"
  then show "startswith s p" unfolding startswith_def by auto
qed

lemma startswith_json_fence: "startswith y ''```json'' \<Longrightarrow> startswith y ''```''"
proof -
  assume "startswith y ''```json''"
  then obtain r where "y = ''```json'' @ r" unfolding startswith_iff ..
  then have "y = ''```'' @ (''json'' @ r)" by simp
  then show ?thesis unfolding startswith_iff ..
qed

lemma clean_fixed:
  assumes "strip y = y" and "\<not> startswith y ''```''" and "\<not> endswith y ''```''"
  shows "clean_json_response y = y"
proof -
  have "\<not> startswith y ''```json''" using assms(2) startswith_json_fence by blast
  then show ?thesis using assms by (simp add: clean_json_response_def Let_def)
qed

lemma clean_shorter:
  assumes "strip y = y" and "startswith y ''```'' \<or> endswith y ''```''"
  shows "length (clean_json_response y) < length y"
proof -
  define c2 where "c2 = (if startswith y ''```json'' then drop 7 y
                else if startswith y ''```'' then drop 3 y else y)"
  define c3 where "c3 = (if endswith c2 ''```'' then take (length c2 - 3) c2 else c2)"
  have r: "clean_json_response y = strip c3"
    using assms(1) by (simp add: clean_json_response_def Let_def c2_def c3_def)
  have l2: "length c2 \<le> length y" by (simp add: c2_def)
  have l3: "length c3 \<le> length c2" by (simp add: c3_def)
  have "length c3 < length y"
  proof (cases "startswith y ''```''")
    case True
    then obtain r where "y = ''```'' @ r" unfolding startswith_iff ..
    then have "3 \<le> length y" by simp
    then have "length c2 < length y" using True by (auto simp add: c2_def)
    then show ?thesis using l3 by simp
  next
    case False
    then have e: "endswith y ''```''" using assms(2) by blast
    have "\<not> startswith y ''```json''" using False startswith_json_fence by blast
    then have c: "c2 = y" using False by (simp add: c2_def)
    have "3 \<le> length y" using e by (simp add: endswith_def)
    then show ?thesis using e c by (simp add: c3_def)
  qed
  then show ?thesis using r length_strip_le[of c3] by simp
qed

lemma clean_segment: "\<exists>pre post. x = pre @ clean_json_response x @ post"
proof -
  define c1 where "c1 = strip x"
  define c2 where "c2 = (if startswith c1 ''```json'' then drop 7 c1
                else if startswith c1 ''```'' then drop 3 c1 else c1)"
  define c3 where "c3 = (if endswith c2 ''```'' then take (length c2 - 3) c2 else c2)"
  have r: "clean_json_response x = strip c3"
    by (simp add: clean_json_response_def Let_def c1_def c2_def c3_def)
  obtain p1 q1 where 1: "x = p1 @ c1 @ q1" unfolding c1_def using strip_segment by blast
  have d: "\<exists>p. c1 = p @ drop n c1" for n by (metis append_take_drop_id)
  have "\<exists>p. c1 = p @ c1" by simp
  then have "\<exists>p. c1 = p @ c2" unfolding c2_def using d[of 7] d[of 3] by presburger
  then obtain p2 where 2: "c1 = p2 @ c2" ..
  have t: "\<exists>q. c2 = take n c2 @ q" for n by (metis append_take_drop_id)
  have "\<exists>q. c2 = c2 @ q" by simp
  then have "\<exists>q. c2 = c3 @ q" unfolding c3_def using t[of "length c2 - 3"] by presburger
  then obtain q3 where 3: "c2 = c3 @ q3" ..
  obtain p4 q4 where 4: "c3 = p4 @ strip c3 @ q4" using strip_segment by blast
  have "x = (p1 @ p2 @ p4) @ strip c3 @ (q4 @ q3 @ q1)"
  proof -
    have "x = p1 @ (p2 @ (p4 @ strip c3 @ q4) @ q3) @ q1" using 1 2 3 4 by simp
    then show ?thesis by simp
  qed
  then show ?thesis unfolding r by blast
qed

subsection \<open>Nodes and the graph\<close>

lemma py_lt_irrefl: "\<not> py_lt c c"
  by (cases c) simp_all


lemma next_node_classify:
  "next_node cfg Classify s =
     Inr (if retry_count s \<ge> 1 then END
          else if py_lt (confidence s) (low_confidence_threshold cfg) then Reanalyze else END)"
  by (simp add: should_reanalyze_def conditional_edges_def)

lemma classify_try_Inr:
  assumes "classify_try rt resp s = Inr s'"
  shows "\<exists>t result cat conf f rsn kws.
           resp = Replied t \<and> json_loads rt (clean_json_response t) = Some result \<and>
           all_fields_in result required_fields = Inr True \<and>
           py_getitem result ''category'' = Inr cat \<and> in_valid_categories cat \<and>
           py_getitem result ''confidence'' = Inr conf \<and> py_float rt conf = Inr f \<and>
           py_getitem result ''reasoning'' = Inr rsn \<and> py_getitem result ''keywords'' = Inr kws \<and>
           s' = s\<lparr> category := the_str cat, confidence := f, reasoning := rsn,
                   keywords := kws, processing_stage := ''classified'' \<rparr>"
  using assms unfolding classify_try_def
  by (auto split: completion.splits option.splits sum.splits bool.splits if_splits)

lemma reanalyze_try_Inr:
  assumes "reanalyze_try rt resp s = Inr s'"
  shows "\<exists>t result cat conf f rsn kws.
           resp = Replied t \<and> json_loads rt (clean_json_response t) = Some result \<and>
           py_getitem result ''category'' = Inr cat \<and> in_valid_categories cat \<and>
           py_getitem result ''confidence'' = Inr conf \<and> py_float rt conf = Inr f \<and>
           py_getitem result ''reasoning'' = Inr rsn \<and> py_getitem result ''keywords'' = Inr kws \<and>
           s' = s\<lparr> category := the_str cat, confidence := f, reasoning := rsn,
                   keywords := kws, retry_count := retry_count s + 1,
                   processing_stage := ''reanalyzed'' \<rparr>"
  using assms unfolding reanalyze_try_def
  by (auto split: completion.splits option.splits sum.splits if_splits)

lemma the_str_valid: "in_valid_categories cat \<Longrightarrow> the_str cat \<in> set valid_categories"
  by (cases cat) simp_all

lemma classify_node_cases:
  assumes "classify_email_node rt cfg resp s = Inr s'"
  shows "classify_try rt resp s = Inr s'
     \<or> ((\<exists>t. resp = Replied t) \<and> classify_try rt resp s = Inl JSONDecodeError \<and>
         s' = s\<lparr> category := ''neutral'', confidence := float_0_3,
                 reasoning := JString ''Unable to parse LLM response'',
                 keywords := JArray [], processing_stage := ''error_json_parse'' \<rparr>)
     \<or> (\<exists>e. e \<noteq> JSONDecodeError \<and> classify_try rt resp s = Inl e \<and>
         s' = s\<lparr> category := ''neutral'', confidence := float_0_3,
                 reasoning := JString (''Error during classification: '' @ take 100 (str_exn rt e)),
                 keywords := JArray [], processing_stage := ''error'' \<rparr>)"
  using assms unfolding classify_email_node_def
  by (auto split: sum.splits exn.splits completion.splits)

lemma reanalyze_node_cases:
  assumes "reanalyze_node rt cfg resp s = Inr s'"
  shows "reanalyze_try rt resp s = Inr s'
     \<or> ((\<exists>e. reanalyze_try rt resp s = Inl e) \<and>
         s' = s\<lparr> retry_count := retry_count s + 1, processing_stage := ''reanalysis_failed'' \<rparr>)"
  using assms unfolding reanalyze_node_def
  by (auto split: sum.splits)

lemma classify_node_total:
  assumes "get_llm cfg = Inr c" and "resp \<noteq> Failed JSONDecodeError"
  shows "\<exists>s'. classify_email_node rt cfg resp s = Inr s'"
proof (cases "classify_try rt resp s")
  case (Inr s') then show ?thesis using assms by (simp add: classify_email_node_def)
next
  case (Inl e)
  show ?thesis
  proof (cases resp)
    case (Failed e')
    then have "e = e'" using Inl by (simp add: classify_try_def)
    then have "e \<noteq> JSONDecodeError" using assms Failed by simp
    then show ?thesis using assms Inl by (cases e) (simp_all add: classify_email_node_def)
  next
    case (Replied t)
    then show ?thesis using assms Inl by (cases e) (simp_all add: classify_email_node_def)
  qed
qed

lemma reanalyze_node_total:
  assumes "get_llm cfg = Inr c"
  shows "\<exists>s'. reanalyze_node rt cfg resp s = Inr s'"
  using assms by (cases "reanalyze_try rt resp s") (simp_all add: reanalyze_node_def)

lemma node_raises_config_error:
  assumes "get_llm cfg = Inl e"
  shows "classify_email_node rt cfg resp s = Inl e" and "reanalyze_node rt cfg resp s = Inl e"
  using assms by (simp_all add: classify_email_node_def reanalyze_node_def)

lemma ainvoke_classify:
  "ainvoke (Suc (Suc (Suc k))) rt cfg llm Classify [] s =
     (case classify_email_node rt cfg (llm 0) s of
        Inl e \<Rightarrow> Inl e
      | Inr s1 \<Rightarrow>
          if retry_count s1 \<ge> 1 then Inr (s1, [Classify])
          else if py_lt (confidence s1) (low_confidence_threshold cfg) then
            (case reanalyze_node rt cfg (llm 1) s1 of
               Inl e \<Rightarrow> Inl e
             | Inr s2 \<Rightarrow> Inr (s2, [Classify, Reanalyze]))
          else Inr (s1, [Classify]))"
proof (cases "classify_email_node rt cfg (llm 0) s")
  case (Inl e)
  then show ?thesis by simp
next
  case (Inr s1)
  show ?thesis
  proof (cases "reanalyze_node rt cfg (llm 1) s1")
    case (Inl e)
    then show ?thesis using Inr
      by (simp add: next_node_classify del: next_node.simps(1))
  next
    case (Inr s2)
    then show ?thesis using \<open>classify_email_node rt cfg (llm 0) s = Inr s1\<close>
      by (simp add: next_node_classify del: next_node.simps(1))
  qed
qed

lemma run_workflow_unfold:
  "run_workflow rt cfg llm s =
     (case classify_email_node rt cfg (llm 0) s of
        Inl e \<Rightarrow> Inl e
      | Inr s1 \<Rightarrow>
          if retry_count s1 \<ge> 1 then Inr (s1, [Classify])
          else if py_lt (confidence s1) (low_confidence_threshold cfg) then
            (case reanalyze_node rt cfg (llm 1) s1 of
               Inl e \<Rightarrow> Inl e
             | Inr s2 \<Rightarrow> Inr (s2, [Classify, Reanalyze]))
          else Inr (s1, [Classify]))"
proof -
  have r: "recursion_limit = Suc (Suc (Suc 22))" by (simp add: recursion_limit_def)
  show ?thesis
    unfolding run_workflow_def entry_point_def by (simp only: r ainvoke_classify)
qed

lemma run_workflow_cases:
  assumes "run_workflow rt cfg llm s = Inr (s', trace)"
  shows "\<exists>s1. classify_email_node rt cfg (llm 0) s = Inr s1 \<and>
           ((trace = [Classify] \<and> s' = s1) \<or>
            (trace = [Classify, Reanalyze] \<and> reanalyze_node rt cfg (llm 1) s1 = Inr s'))"
  using assms unfolding run_workflow_unfold
  by (auto split: sum.splits if_splits)

lemma get_llm_Inl:
  assumes "get_llm cfg = Inl e"
  shows "e = ApiKeyNotFound (llm_provider cfg) \<or> e = UnsupportedProvider (llm_provider cfg)"
  using assms unfolding get_llm_def get_api_key_def
  by (auto split: sum.splits option.splits if_splits)

lemma classify_node_Inl:
  assumes "classify_email_node rt cfg resp s = Inl e"
  shows "get_llm cfg = Inl e \<or> (resp = Failed JSONDecodeError \<and> e = UnboundLocalError ''response'')"
proof (cases "get_llm cfg")
  case (Inl e') then show ?thesis using assms by (simp add: classify_email_node_def)
next
  case (Inr c)
  show ?thesis
  proof (cases "resp = Failed JSONDecodeError")
    case True
    then show ?thesis using assms Inr by (simp add: classify_email_node_def classify_try_def)
  next
    case False
    then show ?thesis using classify_node_total[OF Inr False, of rt s] assms by auto
  qed
qed

lemma reanalyze_node_Inl:
  assumes "reanalyze_node rt cfg resp s = Inl e"
  shows "get_llm cfg = Inl e"
proof (cases "get_llm cfg")
  case (Inl e') then show ?thesis using assms by (simp add: reanalyze_node_def)
next
  case (Inr c)
  then show ?thesis using reanalyze_node_total[OF Inr, of rt resp s] assms by auto
qed

lemma classify_node_retry_count:
  assumes "classify_email_node rt cfg resp s = Inr s'"
  shows "retry_count s' = retry_count s"
proof -
  consider (ok) "classify_try rt resp s = Inr s'"
    | (parse) "s' = s\<lparr> category := ''neutral'', confidence := float_0_3,
                 reasoning := JString ''Unable to parse LLM response'',
                 keywords := JArray [], processing_stage := ''error_json_parse'' \<rparr>"
    | (err) e where "s' = s\<lparr> category := ''neutral'', confidence := float_0_3,
                 reasoning := JString (''Error during classification: '' @ take 100 (str_exn rt e)),
                 keywords := JArray [], processing_stage := ''error'' \<rparr>"
    using classify_node_cases[OF assms] by blast
  then show ?thesis
  proof cases
    case ok
    then obtain cat f rsn kws where
      "s' = s\<lparr> category := the_str cat, confidence := f, reasoning := rsn,
                   keywords := kws, processing_stage := ''classified'' \<rparr>"
      using classify_try_Inr by blast
    then show ?thesis by simp
  next
    case parse then show ?thesis by simp
  next
    case err then show ?thesis by simp
  qed
qed

lemma classify_node_frame:
  assumes "classify_email_node rt cfg resp s = Inr s'"
  shows "email_id s' = email_id s \<and> subject s' = subject s \<and> body s' = body s \<and>
         sender s' = sender s \<and> category s' \<in> set valid_categories \<and>
         (processing_stage s' = ''classified'' \<or> processing_stage s' = ''error_json_parse'' \<or>
          processing_stage s' = ''error'')"
proof -
  consider (ok) "classify_try rt resp s = Inr s'"
    | (parse) "s' = s\<lparr> category := ''neutral'', confidence := float_0_3,
                 reasoning := JString ''Unable to parse LLM response'',
                 keywords := JArray [], processing_stage := ''error_json_parse'' \<rparr>"
    | (err) e where "s' = s\<lparr> category := ''neutral'', confidence := float_0_3,
                 reasoning := JString (''Error during classification: '' @ take 100 (str_exn rt e)),
                 keywords := JArray [], processing_stage := ''error'' \<rparr>"
    using classify_node_cases[OF assms] by blast
  then show ?thesis
  proof cases
    case ok
    then obtain cat f rsn kws where v: "in_valid_categories cat" and
      e: "s' = s\<lparr> category := the_str cat, confidence := f, reasoning := rsn,
                   keywords := kws, processing_stage := ''classified'' \<rparr>"
      using classify_try_Inr by blast
    show ?thesis unfolding e using the_str_valid[OF v] by simp
  next
    case parse then show ?thesis by (simp add: valid_categories_def)
  next
    case err then show ?thesis by (simp add: valid_categories_def)
  qed
qed

lemma reanalyze_node_frame:
  assumes "reanalyze_node rt cfg resp s = Inr s'"
  shows "email_id s' = email_id s \<and> subject s' = subject s \<and> body s' = body s \<and>
         sender s' = sender s \<and> retry_count s' = retry_count s + 1 \<and>
         (category s' \<in> set valid_categories \<or> category s' = category s) \<and>
         (processing_stage s' = ''reanalyzed'' \<or> processing_stage s' = ''reanalysis_failed'')"
proof -
  consider (ok) "reanalyze_try rt resp s = Inr s'"
    | (failed) "s' = s\<lparr> retry_count := retry_count s + 1, processing_stage := ''reanalysis_failed'' \<rparr>"
    using reanalyze_node_cases[OF assms] by blast
  then show ?thesis
  proof cases
    case ok
    then obtain cat f rsn kws where v: "in_valid_categories cat" and
      e: "s' = s\<lparr> category := the_str cat, confidence := f, reasoning := rsn,
                   keywords := kws, retry_count := retry_count s + 1,
                   processing_stage := ''reanalyzed'' \<rparr>"
      using reanalyze_try_Inr by blast
    show ?thesis unfolding e using the_str_valid[OF v] by simp
  next
    case failed then show ?thesis by simp
  qed
qed

lemma reanalyze_try_fails:
  assumes "resp = Failed e
     \<or> (\<exists>t. resp = Replied t \<and> json_loads rt (clean_json_response t) = None)
     \<or> (\<exists>t result. resp = Replied t \<and> json_loads rt (clean_json_response t) = Some result \<and>
          ((\<exists>k err. k \<in> set required_fields \<and> py_getitem result k = Inl err)
           \<or> (\<exists>cat. py_getitem result ''category'' = Inr cat \<and> \<not> in_valid_categories cat)
           \<or> (\<exists>v err. py_getitem result ''confidence'' = Inr v \<and> py_float rt v = Inl err)))"
  shows "\<exists>e'. reanalyze_try rt resp s = Inl e'"
proof -
  have "reanalyze_try rt resp s = Inr s' \<Longrightarrow> False" for s'
  proof -
    assume "reanalyze_try rt resp s = Inr s'"
    then obtain t result cat conf f rsn kws where
      r: "resp = Replied t" "json_loads rt (clean_json_response t) = Some result"
        "py_getitem result ''category'' = Inr cat" "in_valid_categories cat"
        "py_getitem result ''confidence'' = Inr conf" "py_float rt conf = Inr f"
        "py_getitem result ''reasoning'' = Inr rsn" "py_getitem result ''keywords'' = Inr kws"
      using reanalyze_try_Inr by blast
    show False using assms r by (auto simp add: required_fields_def)
  qed
  then show ?thesis by (cases "reanalyze_try rt resp s") auto
qed

lemma classify_email_Inr_fields:
  assumes "classify_email rt cfg llm eid subj bdy sndr = Inr r"
  shows "\<exists>cat conf rsn kws st.
           r = [(''email_id'', JString eid), (''category'', JString cat),
                (''confidence'', JFloat conf), (''reasoning'', rsn), (''keywords'', kws),
                (''processing_stage'', JString st)] \<and>
           cat \<in> set valid_categories \<and>
           (st = ''classified'' \<or> st = ''error_json_parse'' \<or> st = ''error'' \<or>
            st = ''reanalyzed'' \<or> st = ''reanalysis_failed'')"
proof -
  obtain s' trace where run: "run_workflow rt cfg llm (initial_state eid subj bdy sndr) = Inr (s', trace)"
    and r: "r = [(''email_id'', JString (email_id s')),
               (''category'', JString (category s')),
               (''confidence'', JFloat (confidence s')),
               (''reasoning'', reasoning s'),
               (''keywords'', keywords s'),
               (''processing_stage'', JString (processing_stage s'))]"
    using assms unfolding classify_email_def by (auto split: sum.splits)
  obtain s1 where c: "classify_email_node rt cfg (llm 0) (initial_state eid subj bdy sndr) = Inr s1" and
      d: "s' = s1 \<or> reanalyze_node rt cfg (llm 1) s1 = Inr s'"
    using run_workflow_cases[OF run] by blast
  have i: "email_id (initial_state eid subj bdy sndr) = eid" by (simp add: initial_state_def)
  note f1 = classify_node_frame[OF c]
  have id: "email_id s' = eid" using d f1 i reanalyze_node_frame[of rt cfg "llm 1" s1 s'] by auto
  have cat: "category s' \<in> set valid_categories"
    using d f1 reanalyze_node_frame[of rt cfg "llm 1" s1 s'] by auto
  have st: "processing_stage s' = ''classified'' \<or> processing_stage s' = ''error_json_parse'' \<or>
            processing_stage s' = ''error'' \<or> processing_stage s' = ''reanalyzed'' \<or>
            processing_stage s' = ''reanalysis_failed''"
    using d f1 reanalyze_node_frame[of rt cfg "llm 1" s1 s'] by auto
  show ?thesis
    unfolding r id
    by (intro exI[of _ "category s'"] exI[of _ "confidence s'"] exI[of _ "reasoning s'"]
        exI[of _ "keywords s'"] exI[of _ "processing_stage s'"] conjI refl cat st)
qed

subsection \<open>The worked inputs, evaluated\<close>

lemma sample_get_llm: "get_llm sample_settings = Inr (ChatGoogleGenerativeAI ''test-key'')"
  by (simp add: get_llm_def get_api_key_def key_map_def sample_settings_def default_settings_def)

lemma sample_clean:
  "clean_json_response reply_spam = reply_spam"
  "clean_json_response reply_low =
     ''{\"category\": \"neutral\", \"confidence\": 0.25, \"reasoning\": \"unclear\", \"keywords\": []}''"
  "clean_json_response reply_over = reply_over"
  "clean_json_response reply_phishing = reply_phishing"
  "clean_json_response reply_partial = reply_partial"
  "clean_json_response reply_prose = reply_prose"
  by (simp_all add: clean_json_response_def strip_def startswith_def endswith_def is_space_def
      reply_spam_def reply_low_def reply_over_def reply_phishing_def reply_partial_def reply_prose_def)

lemma sample_loads_values:
  "json_loads sample_runtime (clean_json_response reply_spam) =
     Some (JObject [(''category'', JString ''spam''), (''confidence'', JFloat (Fin (3 / 4))),
                    (''reasoning'', JString ''prize''), (''keywords'', JArray [JString ''won''])])"
  "json_loads sample_runtime (clean_json_response reply_low) =
     Some (JObject [(''category'', JString ''neutral''), (''confidence'', JFloat (Fin (1 / 4))),
                    (''reasoning'', JString ''unclear''), (''keywords'', JArray [])])"
  "json_loads sample_runtime (clean_json_response reply_over) =
     Some (JObject [(''category'', JString ''spam''), (''confidence'', JFloat (Fin (3 / 2))),
                    (''reasoning'', JString ''sure''), (''keywords'', JArray [])])"
  "json_loads sample_runtime (clean_json_response reply_phishing) =
     Some (JObject [(''category'', JString ''phishing''), (''confidence'', JFloat (Fin (3 / 4))),
                    (''reasoning'', JString ''link''), (''keywords'', JArray [JString ''link''])])"
  "json_loads sample_runtime (clean_json_response reply_partial) =
     Some (JObject [(''category'', JString ''spam'')])"
  "json_loads sample_runtime (clean_json_response reply_prose) = None"
  unfolding sample_clean
  by (simp_all add: sample_runtime_def sample_loads_def
      reply_spam_def reply_over_def reply_phishing_def reply_partial_def reply_prose_def)

lemma sample_classify_spam:
  "classify_email_node sample_runtime sample_settings (Replied reply_spam) sample_state = Inr classified_spam"
  by (simp add: classify_email_node_def sample_get_llm classify_try_def sample_loads_values
      required_fields_def valid_categories_def classified_spam_def)

lemma sample_classify_low:
  "classify_email_node sample_runtime sample_settings (Replied reply_low) sample_state = Inr classified_low"
  by (simp add: classify_email_node_def sample_get_llm classify_try_def sample_loads_values
      required_fields_def valid_categories_def classified_low_def)

lemma sample_reanalyze_quota:
  "reanalyze_node sample_runtime sample_settings (Failed (CapabilityError ''API quota exceeded'')) classified_low =
     Inr (classified_low\<lparr> retry_count := 1, processing_stage := ''reanalysis_failed'' \<rparr>)"
  by (simp add: reanalyze_node_def sample_get_llm reanalyze_try_def classified_low_def
      sample_state_def initial_state_def)

lemma sample_run_low_quota:
  "run_workflow sample_runtime sample_settings low_then_quota sample_state =
     Inr (classified_low\<lparr> retry_count := 1, processing_stage := ''reanalysis_failed'' \<rparr>,
          [Classify, Reanalyze])"
proof -
  have 0: "low_then_quota 0 = Replied reply_low"
    and 1: "low_then_quota 1 = Failed (CapabilityError ''API quota exceeded'')"
    by (simp_all add: low_then_quota_def)
  have r: "retry_count classified_low = 0" "confidence classified_low = Fin (1 / 4)"
    by (simp_all add: classified_low_def sample_state_def initial_state_def)
  have t: "low_confidence_threshold sample_settings = Fin (1 / 2)"
    by (simp add: sample_settings_def default_settings_def)
  show ?thesis
    unfolding run_workflow_unfold 0 1 sample_classify_low
    by (simp add: r t sample_reanalyze_quota)
qed

lemma sample_run_spam:
  "run_workflow sample_runtime sample_settings (\<lambda>i. Replied reply_spam) sample_state =
     Inr (classified_spam, [Classify])"
proof -
  have r: "retry_count classified_spam = 0" "confidence classified_spam = Fin (3 / 4)"
    by (simp_all add: classified_spam_def sample_state_def initial_state_def)
  have t: "low_confidence_threshold sample_settings = Fin (1 / 2)"
    by (simp add: sample_settings_def default_settings_def)
  show ?thesis
    unfolding run_workflow_unfold sample_classify_spam
    by (simp add: r t)
qed

lemma sample_classify_email_spam:
  "classify_email sample_runtime sample_settings (\<lambda>i. Replied reply_spam)
     ''test_001'' ''URGENT: You won'' ''Click here NOW to claim your prize!'' ''scam@fake-lottery.com''
   = Inr [(''email_id'', JString ''test_001''), (''category'', JString ''spam''),
          (''confidence'', JFloat (Fin (3 / 4))), (''reasoning'', JString ''prize''),
          (''keywords'', JArray [JString ''won'']), (''processing_stage'', JString ''classified'')]"
proof -
  have i: "initial_state ''test_001'' ''URGENT: You won'' ''Click here NOW to claim your prize!''
             ''scam@fake-lottery.com'' = sample_state"
    by (simp add: sample_state_def)
  show ?thesis
    unfolding classify_email_def i sample_run_spam
    by (simp add: classified_spam_def sample_state_def initial_state_def)
qed

lemma sample_classify_email_low_quota:
  "classify_email sample_runtime sample_settings low_then_quota
     ''test_001'' ''URGENT: You won'' ''Click here NOW to claim your prize!'' ''scam@fake-lottery.com''
   = Inr [(''email_id'', JString ''test_001''), (''category'', JString ''neutral''),
          (''confidence'', JFloat (Fin (1 / 4))), (''reasoning'', JString ''unclear''),
          (''keywords'', JArray []), (''processing_stage'', JString ''reanalysis_failed'')]"
proof -
  have i: "initial_state ''test_001'' ''URGENT: You won'' ''Click here NOW to claim your prize!''
             ''scam@fake-lottery.com'' = sample_state"
    by (simp add: sample_state_def)
  show ?thesis
    unfolding classify_email_def i sample_run_low_quota
    by (simp add: classified_low_def sample_state_def initial_state_def)
qed

section \<open>The claims\<close>

subsection \<open>The response normalizer\<close>

text \<open>
  Claim C8, as the code has it. Applying \<open>clean_json_response\<close> a second time changes
  nothing exactly when the first result neither starts nor ends with a fence of three
  backquotes; when it does, the second application removes that fence as well.
\<close>

theorem clean_json_response_idempotent_iff:
  "clean_json_response (clean_json_response x) = clean_json_response x
     \<longleftrightarrow> (\<not> startswith (clean_json_response x) ''```'' \<and> \<not> endswith (clean_json_response x) ''```'')"
proof
  assume eq: "clean_json_response (clean_json_response x) = clean_json_response x"
  show "\<not> startswith (clean_json_response x) ''```'' \<and> \<not> endswith (clean_json_response x) ''```''"
  proof (rule ccontr)
    assume "\<not> ?thesis"
    then have "startswith (clean_json_response x) ''```'' \<or> endswith (clean_json_response x) ''```''"
      by blast
    then have "length (clean_json_response (clean_json_response x)) < length (clean_json_response x)"
      using clean_shorter[OF strip_clean] by blast
    then show False using eq by simp
  qed
next
  assume "\<not> startswith (clean_json_response x) ''```'' \<and> \<not> endswith (clean_json_response x) ''```''"
  then show "clean_json_response (clean_json_response x) = clean_json_response x"
    using clean_fixed[OF strip_clean] by blast
qed

text \<open>A fenced answer: one application leaves no fence, and the second changes nothing.\<close>

theorem clean_json_response_idempotent_iff_witness:
  "\<not> startswith (clean_json_response '' ```json {} ``` '') ''```''
   \<and> \<not> endswith (clean_json_response '' ```json {} ``` '') ''```''
   \<and> clean_json_response (clean_json_response '' ```json {} ``` '') = ''{}''
   \<and> clean_json_response '' ```json {} ``` '' = ''{}''"
proof -
  have v: "clean_json_response '' ```json {} ``` '' = ''{}''"
    by (simp add: clean_json_response_def strip_def startswith_def endswith_def is_space_def)
  have a: "\<not> startswith (clean_json_response '' ```json {} ``` '') ''```''"
    unfolding v by (simp add: startswith_def)
  have b: "\<not> endswith (clean_json_response '' ```json {} ``` '') ''```''"
    unfolding v by (simp add: endswith_def)
  have "clean_json_response (clean_json_response '' ```json {} ``` '') = clean_json_response '' ```json {} ``` ''"
    using clean_json_response_idempotent_iff[of "'' ```json {} ``` ''"] a b by blast
  then show ?thesis using a b v by simp
qed

text \<open>
  Claim C8 as stated fails on a fence inside a fence: the first application leaves the
  inner opener, the second removes it.
\<close>

theorem clean_json_response_not_idempotent:
  "clean_json_response (clean_json_response ''``` ```json {} ```'') = ''{}''
   \<and> clean_json_response ''``` ```json {} ```'' = ''```json {}''
   \<and> clean_json_response (clean_json_response ''``` ```json {} ```'') \<noteq> clean_json_response ''``` ```json {} ```''"
  by (simp add: clean_json_response_def strip_def startswith_def endswith_def is_space_def)

text \<open>
  Claim C9, as the code has it. When the trimmed text starts with a fence, the three
  backquotes are removed, and a tag after them is removed only when it is \<open>json\<close>
  (any other tag stays in the text); when it does not start with a fence nothing is
  removed at the front. Then a closing fence at the end is removed and the rest is
  trimmed again. The result is always a contiguous part of the input, so no character
  inside it is altered.
\<close>

theorem clean_json_response_opener:
  "(strip x = ''```'' @ r \<longrightarrow>
      clean_json_response x =
        strip (let c2 = (if startswith r ''json'' then drop 4 r else r)
               in if endswith c2 ''```'' then take (length c2 - 3) c2 else c2))
   \<and> (\<not> startswith (strip x) ''```'' \<longrightarrow>
      clean_json_response x =
        strip (if endswith (strip x) ''```'' then take (length (strip x) - 3) (strip x) else strip x))
   \<and> (\<exists>pre post. x = pre @ clean_json_response x @ post)"
proof (intro conjI impI)
  assume a: "strip x = ''```'' @ r"
  have s3: "startswith (strip x) ''```''" unfolding startswith_iff using a by blast
  have sj: "startswith (strip x) ''```json'' \<longleftrightarrow> startswith r ''json''"
    unfolding startswith_def a by simp
  have d7: "drop 7 (strip x) = drop 4 r" unfolding a by simp
  have d3: "drop 3 (strip x) = r" unfolding a by simp
  show "clean_json_response x =
        strip (let c2 = (if startswith r ''json'' then drop 4 r else r)
               in if endswith c2 ''```'' then take (length c2 - 3) c2 else c2)"
    unfolding clean_json_response_def Let_def using s3 sj d7 d3 by simp
next
  assume n: "\<not> startswith (strip x) ''```''"
  have "\<not> startswith (strip x) ''```json''" using n startswith_json_fence by blast
  then show "clean_json_response x =
        strip (if endswith (strip x) ''```'' then take (length (strip x) - 3) (strip x) else strip x)"
    unfolding clean_json_response_def Let_def using n by simp
next
  show "\<exists>pre post. x = pre @ clean_json_response x @ post" by (rule clean_segment)
qed

text \<open>An opener tagged \<open>python\<close>, an opener tagged \<open>json\<close> around a text with inner
  backquotes, and a text with a closing fence only.\<close>

theorem clean_json_response_opener_witness:
  "strip '' ```python {} ``` '' = ''```'' @ ''python {} ```''
   \<and> clean_json_response '' ```python {} ``` '' = ''python {}''
   \<and> strip ''```json {`b`}```'' = ''```'' @ ''json {`b`}```''
   \<and> clean_json_response ''```json {`b`}```'' = ''{`b`}''
   \<and> \<not> startswith (strip '' {} ``` '') ''```''
   \<and> clean_json_response '' {} ``` '' = ''{}''"
proof -
  have a: "strip '' ```python {} ``` '' = ''```'' @ ''python {} ```''"
    by (simp add: strip_def is_space_def)
  have b: "strip ''```json {`b`}```'' = ''```'' @ ''json {`b`}```''"
    by (simp add: strip_def is_space_def)
  have c: "\<not> startswith (strip '' {} ``` '') ''```''"
    by (simp add: strip_def is_space_def startswith_def)
  note ta = clean_json_response_opener[of "'' ```python {} ``` ''" "''python {} ```''",
      THEN conjunct1, rule_format, OF a]
  note tb = clean_json_response_opener[of "''```json {`b`}```''" "''json {`b`}```''",
      THEN conjunct1, rule_format, OF b]
  note tc = clean_json_response_opener[of "'' {} ``` ''" "[]",
      THEN conjunct2, THEN conjunct1, rule_format, OF c]
  have a': "clean_json_response '' ```python {} ``` '' = ''python {}''"
    unfolding ta by (simp add: strip_def is_space_def startswith_def endswith_def)
  have b': "clean_json_response ''```json {`b`}```'' = ''{`b`}''"
    unfolding tb by (simp add: strip_def is_space_def startswith_def endswith_def)
  have c': "clean_json_response '' {} ``` '' = ''{}''"
    unfolding tc by (simp add: strip_def is_space_def startswith_def endswith_def)
  show ?thesis by (simp only: a b c a' b' c' simp_thms)
qed

text \<open>Claim C9 as stated fails for a tag other than \<open>json\<close>: only the fence is removed,
  the tag \<open>python\<close> stays.\<close>

theorem clean_json_response_keeps_other_tag:
  "startswith (strip ''```python {}```'') ''```python''
   \<and> clean_json_response ''```python {}```'' = ''python {}''
   \<and> clean_json_response ''```python {}```'' \<noteq> ''{}''"
  by (simp add: clean_json_response_def strip_def startswith_def endswith_def is_space_def)

subsection \<open>Routing\<close>

text \<open>
  Claim C3. With one retry used the router answers \<open>max_retries\<close> and the graph stops,
  whatever the confidence; otherwise a confidence strictly below
  \<open>low_confidence_threshold\<close> (0.50 unless configured) sends the run to \<open>reanalyze\<close>, and
  any other confidence ends it. In particular a confidence equal to the threshold, with no
  retry used, ends the run.
\<close>

theorem route_after_classify:
  "(retry_count s \<ge> 1 \<longrightarrow>
      should_reanalyze cfg s = ''max_retries'' \<and> next_node cfg Classify s = Inr END)
   \<and> (retry_count s < 1 \<and> py_lt (confidence s) (low_confidence_threshold cfg) \<longrightarrow>
      should_reanalyze cfg s = ''reanalyze'' \<and> next_node cfg Classify s = Inr Reanalyze)
   \<and> (retry_count s < 1 \<and> \<not> py_lt (confidence s) (low_confidence_threshold cfg) \<longrightarrow>
      should_reanalyze cfg s = ''end'' \<and> next_node cfg Classify s = Inr END)
   \<and> (retry_count s = 0 \<and> confidence s = low_confidence_threshold cfg \<longrightarrow>
      should_reanalyze cfg s = ''end'' \<and> next_node cfg Classify s = Inr END)
   \<and> low_confidence_threshold default_settings = Fin (1 / 2)"
  using py_lt_irrefl[of "low_confidence_threshold cfg"]
  by (auto simp add: should_reanalyze_def next_node_classify default_settings_def
      simp del: next_node.simps(1))

text \<open>Under the default threshold: one retry used, a confidence of 0.25, of 0.75, and of
  exactly 0.5.\<close>

theorem route_after_classify_witness:
  "should_reanalyze default_settings (sample_state\<lparr>confidence := Fin (1 / 4), retry_count := 1\<rparr>) = ''max_retries''
   \<and> next_node default_settings Classify (sample_state\<lparr>confidence := Fin (1 / 4), retry_count := 1\<rparr>) = Inr END
   \<and> should_reanalyze default_settings (sample_state\<lparr>confidence := Fin (1 / 4)\<rparr>) = ''reanalyze''
   \<and> next_node default_settings Classify (sample_state\<lparr>confidence := Fin (1 / 4)\<rparr>) = Inr Reanalyze
   \<and> should_reanalyze default_settings (sample_state\<lparr>confidence := Fin (3 / 4)\<rparr>) = ''end''
   \<and> should_reanalyze default_settings (sample_state\<lparr>confidence := Fin (1 / 2)\<rparr>) = ''end''
   \<and> next_node default_settings Classify (sample_state\<lparr>confidence := Fin (1 / 2)\<rparr>) = Inr END"
proof -
  have t: "low_confidence_threshold default_settings = Fin (1 / 2)"
    by (simp add: default_settings_def)
  have r0: "retry_count sample_state = 0" by (simp add: sample_state_def initial_state_def)
  let ?s1 = "sample_state\<lparr>confidence := Fin (1 / 4), retry_count := 1\<rparr>"
  let ?s2 = "sample_state\<lparr>confidence := Fin (1 / 4)\<rparr>"
  let ?s3 = "sample_state\<lparr>confidence := Fin (3 / 4)\<rparr>"
  let ?s4 = "sample_state\<lparr>confidence := Fin (1 / 2)\<rparr>"
  have h1: "retry_count ?s1 \<ge> 1" by simp
  have h2: "retry_count ?s2 < 1 \<and> py_lt (confidence ?s2) (low_confidence_threshold default_settings)"
    by (simp add: t r0)
  have h3: "retry_count ?s3 < 1 \<and> \<not> py_lt (confidence ?s3) (low_confidence_threshold default_settings)"
    by (simp add: t r0)
  have h4: "retry_count ?s4 = 0 \<and> confidence ?s4 = low_confidence_threshold default_settings"
    by (simp add: t r0)
  note c1 = route_after_classify[of ?s1 default_settings, THEN conjunct1, rule_format, OF h1]
  note c2 = route_after_classify[of ?s2 default_settings, THEN conjunct2, THEN conjunct1, rule_format, OF h2]
  note c3 = route_after_classify[of ?s3 default_settings, THEN conjunct2, THEN conjunct2, THEN conjunct1, rule_format, OF h3]
  note c4 = route_after_classify[of ?s4 default_settings, THEN conjunct2, THEN conjunct2, THEN conjunct2, THEN conjunct1, rule_format, OF h4]
  show ?thesis by (simp only: c1 c2 c3 c4 simp_thms)
qed

subsection \<open>The classification node\<close>

text \<open>
  The two failure modes of the classification node. With a client built, an answer that
  \<open>json.loads\<close> rejects gives the defaults with the stage \<open>error_json_parse\<close>; a
  model call that fails with anything but a \<open>JSONDecodeError\<close>, a parsed answer in which
  a required field is not found, and a parsed answer with a category outside the three
  literals give the same defaults with the stage \<open>error\<close> and a reasoning made of the
  first 100 characters of the exception's text.
\<close>

lemma classify_failure_modes:
  assumes g: "get_llm cfg = Inr c"
  shows "(resp = Replied t \<and> json_loads rt (clean_json_response t) = None \<longrightarrow>
            classify_email_node rt cfg resp s =
              Inr (s\<lparr> category := ''neutral'', confidence := float_0_3,
                      reasoning := JString ''Unable to parse LLM response'',
                      keywords := JArray [], processing_stage := ''error_json_parse'' \<rparr>))
     \<and> ((resp = Failed e \<and> e \<noteq> JSONDecodeError)
          \<or> (resp = Replied t \<and> json_loads rt (clean_json_response t) = Some result \<and>
              (all_fields_in result required_fields \<noteq> Inr True
               \<or> (\<exists>cat. py_getitem result ''category'' = Inr cat \<and> \<not> in_valid_categories cat)))
          \<longrightarrow>
            (\<exists>e'. e' \<noteq> JSONDecodeError \<and> classify_email_node rt cfg resp s =
              Inr (s\<lparr> category := ''neutral'', confidence := float_0_3,
                      reasoning := JString (''Error during classification: '' @ take 100 (str_exn rt e')),
                      keywords := JArray [], processing_stage := ''error'' \<rparr>)))"
proof (intro conjI impI)
  assume "resp = Replied t \<and> json_loads rt (clean_json_response t) = None"
  then show "classify_email_node rt cfg resp s =
              Inr (s\<lparr> category := ''neutral'', confidence := float_0_3,
                      reasoning := JString ''Unable to parse LLM response'',
                      keywords := JArray [], processing_stage := ''error_json_parse'' \<rparr>)"
    using g by (simp add: classify_email_node_def classify_try_def)
next
  assume a: "(resp = Failed e \<and> e \<noteq> JSONDecodeError)
          \<or> (resp = Replied t \<and> json_loads rt (clean_json_response t) = Some result \<and>
              (all_fields_in result required_fields \<noteq> Inr True
               \<or> (\<exists>cat. py_getitem result ''category'' = Inr cat \<and> \<not> in_valid_categories cat)))"
  have no_decode: "all_fields_in v ks \<noteq> Inl JSONDecodeError" for v ks
    by (induction ks) (cases v; auto split: sum.splits bool.splits)+
  have no_decode2: "py_getitem v k \<noteq> Inl JSONDecodeError" for v k
    by (cases v) (auto split: option.splits)
  have "\<exists>e'. e' \<noteq> JSONDecodeError \<and> classify_try rt resp s = Inl e'"
    using a no_decode[of result required_fields] no_decode2[of result "''category''"]
    unfolding classify_try_def
    by (auto split: sum.splits bool.splits)
  then obtain e' where n: "e' \<noteq> JSONDecodeError" and t: "classify_try rt resp s = Inl e'" by blast
  have "classify_email_node rt cfg resp s =
              Inr (s\<lparr> category := ''neutral'', confidence := float_0_3,
                      reasoning := JString (''Error during classification: '' @ take 100 (str_exn rt e')),
                      keywords := JArray [], processing_stage := ''error'' \<rparr>)"
    using g t n by (cases e') (simp_all add: classify_email_node_def)
  then show "\<exists>e'. e' \<noteq> JSONDecodeError \<and> classify_email_node rt cfg resp s =
              Inr (s\<lparr> category := ''neutral'', confidence := float_0_3,
                      reasoning := JString (''Error during classification: '' @ take 100 (str_exn rt e')),
                      keywords := JArray [], processing_stage := ''error'' \<rparr>)"
    using n by blast
qed

text \<open>The failure scenarios of the repository's tests: prose instead of JSON, a category
  outside the set, and an answer with only a category.\<close>

lemma sample_classify_failures:
  "classify_email_node sample_runtime sample_settings (Replied reply_prose) sample_state =
     Inr (sample_state\<lparr> category := ''neutral'', confidence := float_0_3,
            reasoning := JString ''Unable to parse LLM response'',
            keywords := JArray [], processing_stage := ''error_json_parse'' \<rparr>)"
  "classify_email_node sample_runtime sample_settings (Replied reply_phishing) sample_state =
     Inr (sample_state\<lparr> category := ''neutral'', confidence := float_0_3,
            reasoning := JString ''Error during classification: error'',
            keywords := JArray [], processing_stage := ''error'' \<rparr>)"
  "classify_email_node sample_runtime sample_settings (Replied reply_partial) sample_state =
     Inr (sample_state\<lparr> category := ''neutral'', confidence := float_0_3,
            reasoning := JString ''Error during classification: error'',
            keywords := JArray [], processing_stage := ''error'' \<rparr>)"
proof -
  have e: "str_exn sample_runtime = sample_str_exn" by (simp add: sample_runtime_def)
  show "classify_email_node sample_runtime sample_settings (Replied reply_prose) sample_state =
     Inr (sample_state\<lparr> category := ''neutral'', confidence := float_0_3,
            reasoning := JString ''Unable to parse LLM response'',
            keywords := JArray [], processing_stage := ''error_json_parse'' \<rparr>)"
    by (simp add: classify_email_node_def sample_get_llm classify_try_def sample_loads_values)
  show "classify_email_node sample_runtime sample_settings (Replied reply_phishing) sample_state =
     Inr (sample_state\<lparr> category := ''neutral'', confidence := float_0_3,
            reasoning := JString ''Error during classification: error'',
            keywords := JArray [], processing_stage := ''error'' \<rparr>)"
    by (simp add: classify_email_node_def sample_get_llm classify_try_def sample_loads_values
        required_fields_def valid_categories_def e)
  show "classify_email_node sample_runtime sample_settings (Replied reply_partial) sample_state =
     Inr (sample_state\<lparr> category := ''neutral'', confidence := float_0_3,
            reasoning := JString ''Error during classification: error'',
            keywords := JArray [], processing_stage := ''error'' \<rparr>)"
    by (simp add: classify_email_node_def sample_get_llm classify_try_def sample_loads_values
        required_fields_def e)
qed

text \<open>
  Claim C7 holds in the cases above and fails in the remaining one. A model call that
  itself fails with a \<open>JSONDecodeError\<close> is caught by the first handler, whose log
  line reads \<open>response.content\<close> although \<open>response\<close> was never bound: the node
  raises \<open>UnboundLocalError\<close> instead of returning the defaults with the stage
  \<open>error\<close>. Any other failure of the call is absorbed, and the reanalysis node absorbs
  this one too.
\<close>

theorem classify_node_unbound_response:
  "classify_email_node sample_runtime sample_settings (Failed JSONDecodeError) sample_state =
     Inl (UnboundLocalError ''response'')
   \<and> classify_email_node sample_runtime sample_settings (Failed (CapabilityError ''API quota exceeded''))
       sample_state =
     Inr (sample_state\<lparr> category := ''neutral'', confidence := float_0_3,
            reasoning := JString ''Error during classification: API quota exceeded'',
            keywords := JArray [], processing_stage := ''error'' \<rparr>)
   \<and> reanalyze_node sample_runtime sample_settings (Failed JSONDecodeError) classified_low =
     Inr (classified_low\<lparr> retry_count := 1, processing_stage := ''reanalysis_failed'' \<rparr>)"
  by (simp add: classify_email_node_def reanalyze_node_def sample_get_llm classify_try_def
      reanalyze_try_def sample_runtime_def classified_low_def sample_state_def initial_state_def)




subsection \<open>The reanalysis node\<close>

text \<open>
  Claim C6, as the code has it. With a client built, when the model call fails, or its
  answer cannot be parsed, or a field of the parsed answer cannot be read, or the category
  is not one of the three literals, or the confidence cannot be converted, the node
  returns the state it was given with \<open>retry_count\<close> one higher and the stage
  \<open>reanalysis_failed\<close>: category, confidence, reasoning, keywords and the four input
  fields are unchanged.
\<close>

theorem reanalysis_failure_keeps_classification:
  assumes "get_llm cfg = Inr c"
    and "resp = Failed e
     \<or> (\<exists>t. resp = Replied t \<and> json_loads rt (clean_json_response t) = None)
     \<or> (\<exists>t result. resp = Replied t \<and> json_loads rt (clean_json_response t) = Some result \<and>
          ((\<exists>k err. k \<in> set required_fields \<and> py_getitem result k = Inl err)
           \<or> (\<exists>cat. py_getitem result ''category'' = Inr cat \<and> \<not> in_valid_categories cat)
           \<or> (\<exists>v err. py_getitem result ''confidence'' = Inr v \<and> py_float rt v = Inl err)))"
  shows "\<exists>s'. reanalyze_node rt cfg resp s = Inr s' \<and>
           category s' = category s \<and> confidence s' = confidence s \<and>
           reasoning s' = reasoning s \<and> keywords s' = keywords s \<and>
           retry_count s' = retry_count s + 1 \<and> processing_stage s' = ''reanalysis_failed'' \<and>
           email_id s' = email_id s \<and> subject s' = subject s \<and> sender s' = sender s \<and>
           body s' = body s"
proof -
  obtain e' where "reanalyze_try rt resp s = Inl e'"
    using reanalyze_try_fails[OF assms(2)] by blast
  then have "reanalyze_node rt cfg resp s =
      Inr (s\<lparr> retry_count := retry_count s + 1, processing_stage := ''reanalysis_failed'' \<rparr>)"
    using assms(1) by (simp add: reanalyze_node_def)
  then show ?thesis by simp
qed

text \<open>
  A model call that fails, and an answer with the category \<open>phishing\<close>, after a
  low-confidence classification.
\<close>

theorem reanalysis_failure_keeps_classification_witness:
  "get_llm sample_settings = Inr (ChatGoogleGenerativeAI ''test-key'')
   \<and> reanalyze_node sample_runtime sample_settings (Failed (CapabilityError ''API quota exceeded'')) classified_low
       = Inr (classified_low\<lparr> retry_count := 1, processing_stage := ''reanalysis_failed'' \<rparr>)
   \<and> (\<exists>s'. reanalyze_node sample_runtime sample_settings (Replied reply_phishing) classified_low = Inr s' \<and>
           category s' = ''neutral'' \<and> confidence s' = Fin (1 / 4) \<and>
           reasoning s' = JString ''unclear'' \<and> keywords s' = JArray [] \<and>
           retry_count s' = 1 \<and> processing_stage s' = ''reanalysis_failed'')"
proof -
  have h: "Replied reply_phishing = Failed JSONDecodeError
     \<or> (\<exists>t. Replied reply_phishing = Replied t \<and> json_loads sample_runtime (clean_json_response t) = None)
     \<or> (\<exists>t result. Replied reply_phishing = Replied t \<and>
            json_loads sample_runtime (clean_json_response t) = Some result \<and>
          ((\<exists>k err. k \<in> set required_fields \<and> py_getitem result k = Inl err)
           \<or> (\<exists>cat. py_getitem result ''category'' = Inr cat \<and> \<not> in_valid_categories cat)
           \<or> (\<exists>v err. py_getitem result ''confidence'' = Inr v \<and> py_float sample_runtime v = Inl err)))"
    by (simp add: sample_loads_values valid_categories_def)
  have f: "category classified_low = ''neutral''" "confidence classified_low = Fin (1 / 4)"
    "reasoning classified_low = JString ''unclear''" "keywords classified_low = JArray []"
    "retry_count classified_low = 0"
    by (simp_all add: classified_low_def sample_state_def initial_state_def)
  obtain s' where p: "reanalyze_node sample_runtime sample_settings (Replied reply_phishing) classified_low = Inr s'"
    "category s' = category classified_low" "confidence s' = confidence classified_low"
    "reasoning s' = reasoning classified_low" "keywords s' = keywords classified_low"
    "retry_count s' = retry_count classified_low + 1" "processing_stage s' = ''reanalysis_failed''"
    using reanalysis_failure_keeps_classification[OF sample_get_llm h, of classified_low] by blast
  have "\<exists>s'. reanalyze_node sample_runtime sample_settings (Replied reply_phishing) classified_low = Inr s' \<and>
           category s' = ''neutral'' \<and> confidence s' = Fin (1 / 4) \<and>
           reasoning s' = JString ''unclear'' \<and> keywords s' = JArray [] \<and>
           retry_count s' = 1 \<and> processing_stage s' = ''reanalysis_failed''"
    using p unfolding f by (intro exI[of _ s']) simp
  then show ?thesis using sample_get_llm sample_reanalyze_quota by simp
qed

text \<open>
  Claim C6 as stated fails when no client can be built: \<open>get_llm\<close> is called before
  the \<open>try\<close> block, so with no API key the node raises and returns no state, whatever
  the model call would have done.
\<close>

theorem reanalysis_failure_raises_config_error:
  "reanalyze_node sample_runtime default_settings (Failed (CapabilityError ''API quota exceeded''))
     classified_low = Inl (ApiKeyNotFound ''gemini'')"
  by (simp add: reanalyze_node_def get_llm_def get_api_key_def key_map_def default_settings_def)

subsection \<open>The category\<close>

text \<open>
  Claim C5. Whenever \<open>classify_email\<close> returns a result, its category is \<open>spam\<close>,
  \<open>important\<close> or \<open>neutral\<close>. The classification node always leaves one of the three,
  and the reanalysis node either sets one of the three or keeps the category it found.
\<close>

theorem category_always_valid:
  "(classify_email rt cfg llm eid subj bdy sndr = Inr r \<longrightarrow>
      (\<exists>c. map_of r ''category'' = Some (JString c) \<and> c \<in> set valid_categories))
   \<and> (classify_email_node rt cfg resp s = Inr s1 \<longrightarrow> category s1 \<in> set valid_categories)
   \<and> (reanalyze_node rt cfg resp s = Inr s2 \<longrightarrow>
        category s2 \<in> set valid_categories \<or> category s2 = category s)
   \<and> set valid_categories = {''spam'', ''important'', ''neutral''}"
proof (intro conjI impI)
  assume a: "classify_email rt cfg llm eid subj bdy sndr = Inr r"
  then obtain s' trace where run: "run_workflow rt cfg llm (initial_state eid subj bdy sndr) = Inr (s', trace)"
    and r: "r = [(''email_id'', JString (email_id s')),
               (''category'', JString (category s')),
               (''confidence'', JFloat (confidence s')),
               (''reasoning'', reasoning s'),
               (''keywords'', keywords s'),
               (''processing_stage'', JString (processing_stage s'))]"
    unfolding classify_email_def by (auto split: sum.splits)
  obtain s1 where c: "classify_email_node rt cfg (llm 0) (initial_state eid subj bdy sndr) = Inr s1" and
      d: "s' = s1 \<or> reanalyze_node rt cfg (llm 1) s1 = Inr s'"
    using run_workflow_cases[OF run] by blast
  have v1: "category s1 \<in> set valid_categories" using classify_node_frame[OF c] by blast
  have "category s' \<in> set valid_categories"
    using d v1 reanalyze_node_frame[of rt cfg "llm 1" s1 s'] by auto
  then show "\<exists>c. map_of r ''category'' = Some (JString c) \<and> c \<in> set valid_categories"
    unfolding r by simp
next
  assume "classify_email_node rt cfg resp s = Inr s1"
  then show "category s1 \<in> set valid_categories" using classify_node_frame by blast
next
  assume "reanalyze_node rt cfg resp s = Inr s2"
  then show "category s2 \<in> set valid_categories \<or> category s2 = category s"
    using reanalyze_node_frame by blast
next
  show "set valid_categories = {''spam'', ''important'', ''neutral''}"
    by (simp add: valid_categories_def)
qed

text \<open>
  A run on a confident answer, and the classification node on a low-confidence answer.
\<close>

theorem category_always_valid_witness:
  "classify_email sample_runtime sample_settings (\<lambda>i. Replied reply_spam)
     ''test_001'' ''URGENT: You won'' ''Click here NOW to claim your prize!'' ''scam@fake-lottery.com''
   = Inr [(''email_id'', JString ''test_001''), (''category'', JString ''spam''),
          (''confidence'', JFloat (Fin (3 / 4))), (''reasoning'', JString ''prize''),
          (''keywords'', JArray [JString ''won'']), (''processing_stage'', JString ''classified'')]
   \<and> ''spam'' \<in> set valid_categories
   \<and> classify_email_node sample_runtime sample_settings (Replied reply_low) sample_state = Inr classified_low
   \<and> category classified_low \<in> set valid_categories"
proof -
  note t = category_always_valid[of sample_runtime sample_settings "\<lambda>i. Replied reply_spam"
      "''test_001''" "''URGENT: You won''" "''Click here NOW to claim your prize!''"
      "''scam@fake-lottery.com''"
      "[(''email_id'', JString ''test_001''), (''category'', JString ''spam''),
          (''confidence'', JFloat (Fin (3 / 4))), (''reasoning'', JString ''prize''),
          (''keywords'', JArray [JString ''won'']), (''processing_stage'', JString ''classified'')]"
      "Replied reply_low" sample_state classified_low]
  have a: "''spam'' \<in> set valid_categories"
    using t[THEN conjunct1, rule_format, OF sample_classify_email_spam] by simp
  have b: "category classified_low \<in> set valid_categories"
    using t[THEN conjunct2, THEN conjunct1, rule_format, OF sample_classify_low] .
  show ?thesis using a b sample_classify_email_spam sample_classify_low by blast
qed

subsection \<open>The run of the graph\<close>

text \<open>
  Claim C4. A run that ends has executed either the classification node alone or the
  classification node followed once by the reanalysis node, so the model is called at most
  twice; \<open>retry_count\<close> is unchanged in the first case and one higher in the second,
  hence 0 or 1 at the end of a run that starts from the initial state. The classification
  node never changes \<open>retry_count\<close>, the reanalysis node adds exactly one, the edge
  out of \<open>reanalyze\<close> leads to \<open>END\<close>, and the engine's step limit is never reached.
\<close>

theorem retry_count_and_trace:
  "(run_workflow rt cfg llm s = Inr (s', trace) \<longrightarrow>
      (trace = [Classify] \<and> retry_count s' = retry_count s) \<or>
      (trace = [Classify, Reanalyze] \<and> retry_count s' = retry_count s + 1))
   \<and> (run_workflow rt cfg llm (initial_state eid subj bdy sndr) = Inr (s', trace) \<longrightarrow>
      (trace = [Classify] \<and> retry_count s' = 0) \<or>
      (trace = [Classify, Reanalyze] \<and> retry_count s' = 1))
   \<and> (classify_email_node rt cfg resp s = Inr s1 \<longrightarrow> retry_count s1 = retry_count s)
   \<and> (reanalyze_node rt cfg resp s = Inr s2 \<longrightarrow> retry_count s2 = retry_count s + 1)
   \<and> next_node cfg Reanalyze s = Inr END
   \<and> run_workflow rt cfg llm s \<noteq> Inl GraphRecursionError"
proof -
  have general: "(trace = [Classify] \<and> retry_count s' = retry_count s) \<or>
      (trace = [Classify, Reanalyze] \<and> retry_count s' = retry_count s + 1)"
    if run: "run_workflow rt cfg llm s = Inr (s', trace)" for s s' trace
  proof -
    obtain s1 where c: "classify_email_node rt cfg (llm 0) s = Inr s1" and
      d: "(trace = [Classify] \<and> s' = s1) \<or>
          (trace = [Classify, Reanalyze] \<and> reanalyze_node rt cfg (llm 1) s1 = Inr s')"
      using run_workflow_cases[OF run] by blast
    have r1: "retry_count s1 = retry_count s" using classify_node_retry_count[OF c] .
    show ?thesis using d r1 reanalyze_node_frame[of rt cfg "llm 1" s1 s'] by auto
  qed
  have init: "retry_count (initial_state eid subj bdy sndr) = 0" by (simp add: initial_state_def)
  have no_limit: "run_workflow rt cfg llm s \<noteq> Inl GraphRecursionError"
  proof
    assume a: "run_workflow rt cfg llm s = Inl GraphRecursionError"
    show False
    proof (cases "classify_email_node rt cfg (llm 0) s")
      case (Inl e)
      then have "e = GraphRecursionError" using a by (simp add: run_workflow_unfold)
      then show False using classify_node_Inl[OF Inl] get_llm_Inl[of cfg e] by auto
    next
      case (Inr s1)
      show False
      proof (cases "reanalyze_node rt cfg (llm 1) s1")
        case (Inl e)
        then have "e = GraphRecursionError" using a Inr
          by (simp add: run_workflow_unfold split: if_splits)
        then show False using reanalyze_node_Inl[OF Inl] get_llm_Inl[of cfg e] by auto
      next
        case r: (Inr s2)
        show False using a Inr r by (simp add: run_workflow_unfold split: if_splits)
      qed
    qed
  qed
  show ?thesis
    using general[of s s' trace] general[of "initial_state eid subj bdy sndr" s' trace] init
      classify_node_retry_count[of rt cfg resp s s1] reanalyze_node_frame[of rt cfg resp s s2]
      no_limit
    by (simp del: next_node.simps(1))
qed

text \<open>
  A run whose first answer has a confidence of 0.25 and whose second model call fails.
\<close>

theorem retry_count_and_trace_witness:
  "run_workflow sample_runtime sample_settings low_then_quota sample_state =
     Inr (classified_low\<lparr> retry_count := 1, processing_stage := ''reanalysis_failed'' \<rparr>,
          [Classify, Reanalyze])
   \<and> retry_count (classified_low\<lparr> retry_count := 1, processing_stage := ''reanalysis_failed'' \<rparr>)
       = retry_count sample_state + 1
   \<and> classify_email_node sample_runtime sample_settings (Replied reply_low) sample_state = Inr classified_low
   \<and> retry_count classified_low = retry_count sample_state"
proof -
  note t = retry_count_and_trace[of sample_runtime sample_settings low_then_quota sample_state
      "classified_low\<lparr> retry_count := 1, processing_stage := ''reanalysis_failed'' \<rparr>"
      "[Classify, Reanalyze]" "''test_001''" "''s''" "''b''" "''f''" "Replied reply_low" classified_low]
  have a: "retry_count (classified_low\<lparr> retry_count := 1, processing_stage := ''reanalysis_failed'' \<rparr>)
       = retry_count sample_state + 1"
    using t[THEN conjunct1, rule_format, OF sample_run_low_quota] by simp
  have b: "retry_count classified_low = retry_count sample_state"
    using t[THEN conjunct2, THEN conjunct2, THEN conjunct1, rule_format, OF sample_classify_low] .
  show ?thesis using a b sample_run_low_quota sample_classify_low by simp
qed

text \<open>
  Claim C1, as the code has it. When \<open>get_llm\<close> builds a client and the first model
  call returns a text or fails with an exception other than a \<open>JSONDecodeError\<close>,
  \<open>classify_email\<close> returns a dict with exactly the six keys \<open>email_id\<close>,
  \<open>category\<close>, \<open>confidence\<close>, \<open>reasoning\<close>, \<open>keywords\<close> and
  \<open>processing_stage\<close>, the \<open>email_id\<close> that was passed in, a category among the three
  literals and a stage among the five post-step stages. Under the same conditions each
  node returns a state, with the input fields unchanged, a category among the three
  literals (or, after a failed reanalysis, the category it found) and one of its own
  stages: every failure inside its \<open>try\<close> block has become a state. An exception raised
  by \<open>get_llm\<close>, which both nodes call before their \<open>try\<close> block, reaches the caller
  of \<open>classify_email\<close>.
\<close>

theorem classify_email_returns_when_configured:
  "(get_llm cfg = Inr c \<and> llm 0 \<noteq> Failed JSONDecodeError \<longrightarrow>
      (\<exists>cat conf rsn kws st.
         classify_email rt cfg llm eid subj bdy sndr =
           Inr [(''email_id'', JString eid), (''category'', JString cat),
                (''confidence'', JFloat conf), (''reasoning'', rsn), (''keywords'', kws),
                (''processing_stage'', JString st)] \<and>
         cat \<in> set valid_categories \<and>
         (st = ''classified'' \<or> st = ''error_json_parse'' \<or> st = ''error'' \<or>
          st = ''reanalyzed'' \<or> st = ''reanalysis_failed'')))
   \<and> (get_llm cfg = Inr c \<and> resp \<noteq> Failed JSONDecodeError \<longrightarrow>
      (\<exists>s'. classify_email_node rt cfg resp s = Inr s' \<and>
         email_id s' = email_id s \<and> subject s' = subject s \<and> body s' = body s \<and>
         sender s' = sender s \<and> retry_count s' = retry_count s \<and>
         category s' \<in> set valid_categories \<and>
         (processing_stage s' = ''classified'' \<or> processing_stage s' = ''error_json_parse'' \<or>
          processing_stage s' = ''error'')))
   \<and> (get_llm cfg = Inr c \<longrightarrow>
      (\<exists>s'. reanalyze_node rt cfg resp s = Inr s' \<and>
         email_id s' = email_id s \<and> subject s' = subject s \<and> body s' = body s \<and>
         sender s' = sender s \<and> retry_count s' = retry_count s + 1 \<and>
         (category s' \<in> set valid_categories \<or> category s' = category s) \<and>
         (processing_stage s' = ''reanalyzed'' \<or> processing_stage s' = ''reanalysis_failed'')))
   \<and> (get_llm cfg = Inl e \<longrightarrow> classify_email rt cfg llm eid subj bdy sndr = Inl e)"
proof (intro conjI impI)
  assume a: "get_llm cfg = Inr c \<and> llm 0 \<noteq> Failed JSONDecodeError"
  then have g: "get_llm cfg = Inr c" and n: "llm 0 \<noteq> Failed JSONDecodeError" by blast+
  obtain s1 where c1: "classify_email_node rt cfg (llm 0) (initial_state eid subj bdy sndr) = Inr s1"
    using classify_node_total[OF g n] by blast
  obtain s2 where c2: "reanalyze_node rt cfg (llm 1) s1 = Inr s2"
    using reanalyze_node_total[OF g] by blast
  have "\<exists>p. run_workflow rt cfg llm (initial_state eid subj bdy sndr) = Inr p"
    using c1 c2 by (simp add: run_workflow_unfold)
  then have "\<exists>r. classify_email rt cfg llm eid subj bdy sndr = Inr r"
    unfolding classify_email_def by (auto split: sum.splits prod.splits)
  then obtain r where r: "classify_email rt cfg llm eid subj bdy sndr = Inr r" ..
  show "\<exists>cat conf rsn kws st.
         classify_email rt cfg llm eid subj bdy sndr =
           Inr [(''email_id'', JString eid), (''category'', JString cat),
                (''confidence'', JFloat conf), (''reasoning'', rsn), (''keywords'', kws),
                (''processing_stage'', JString st)] \<and>
         cat \<in> set valid_categories \<and>
         (st = ''classified'' \<or> st = ''error_json_parse'' \<or> st = ''error'' \<or>
          st = ''reanalyzed'' \<or> st = ''reanalysis_failed'')"
    unfolding r sum.inject by (rule classify_email_Inr_fields[OF r])
next
  assume a: "get_llm cfg = Inr c \<and> resp \<noteq> Failed JSONDecodeError"
  then obtain s' where n: "classify_email_node rt cfg resp s = Inr s'"
    using classify_node_total by blast
  show "\<exists>s'. classify_email_node rt cfg resp s = Inr s' \<and>
         email_id s' = email_id s \<and> subject s' = subject s \<and> body s' = body s \<and>
         sender s' = sender s \<and> retry_count s' = retry_count s \<and>
         category s' \<in> set valid_categories \<and>
         (processing_stage s' = ''classified'' \<or> processing_stage s' = ''error_json_parse'' \<or>
          processing_stage s' = ''error'')"
    using n classify_node_frame[OF n] classify_node_retry_count[OF n]
    by (intro exI[of _ s']) simp
next
  assume "get_llm cfg = Inr c"
  then obtain s' where n: "reanalyze_node rt cfg resp s = Inr s'"
    using reanalyze_node_total by blast
  show "\<exists>s'. reanalyze_node rt cfg resp s = Inr s' \<and>
         email_id s' = email_id s \<and> subject s' = subject s \<and> body s' = body s \<and>
         sender s' = sender s \<and> retry_count s' = retry_count s + 1 \<and>
         (category s' \<in> set valid_categories \<or> category s' = category s) \<and>
         (processing_stage s' = ''reanalyzed'' \<or> processing_stage s' = ''reanalysis_failed'')"
    using n reanalyze_node_frame[OF n] by (intro exI[of _ s']) simp
next
  assume g: "get_llm cfg = Inl e"
  have "classify_email_node rt cfg (llm 0) (initial_state eid subj bdy sndr) = Inl e"
    using node_raises_config_error(1)[OF g] .
  then show "classify_email rt cfg llm eid subj bdy sndr = Inl e"
    by (simp add: classify_email_def run_workflow_unfold)
qed

text \<open>
  A configured run whose second model call fails, with the dict it returns, and a run
  under the default settings, which hold no API key.
\<close>

theorem classify_email_returns_when_configured_witness:
  "get_llm sample_settings = Inr (ChatGoogleGenerativeAI ''test-key'')
   \<and> low_then_quota 0 \<noteq> Failed JSONDecodeError
   \<and> classify_email sample_runtime sample_settings low_then_quota
        ''test_001'' ''URGENT: You won'' ''Click here NOW to claim your prize!''
        ''scam@fake-lottery.com''
      = Inr [(''email_id'', JString ''test_001''), (''category'', JString ''neutral''),
             (''confidence'', JFloat (Fin (1 / 4))), (''reasoning'', JString ''unclear''),
             (''keywords'', JArray []), (''processing_stage'', JString ''reanalysis_failed'')]
   \<and> (\<exists>cat conf rsn kws st.
         classify_email sample_runtime sample_settings low_then_quota
           ''test_001'' ''URGENT: You won'' ''Click here NOW to claim your prize!''
           ''scam@fake-lottery.com'' =
           Inr [(''email_id'', JString ''test_001''), (''category'', JString cat),
                (''confidence'', JFloat conf), (''reasoning'', rsn), (''keywords'', kws),
                (''processing_stage'', JString st)] \<and>
         cat \<in> set valid_categories \<and>
         (st = ''classified'' \<or> st = ''error_json_parse'' \<or> st = ''error'' \<or>
          st = ''reanalyzed'' \<or> st = ''reanalysis_failed''))
   \<and> get_llm default_settings = Inl (ApiKeyNotFound ''gemini'')
   \<and> classify_email sample_runtime default_settings low_then_quota
            ''test_001'' ''URGENT: You won'' ''Click here NOW to claim your prize!''
            ''scam@fake-lottery.com'' = Inl (ApiKeyNotFound ''gemini'')"
proof -
  have n: "low_then_quota 0 \<noteq> Failed JSONDecodeError" by (simp add: low_then_quota_def)
  have g: "get_llm default_settings = Inl (ApiKeyNotFound ''gemini'')"
    by (simp add: get_llm_def get_api_key_def key_map_def default_settings_def)
  have h: "get_llm sample_settings = Inr (ChatGoogleGenerativeAI ''test-key'') \<and>
           low_then_quota 0 \<noteq> Failed JSONDecodeError"
    using sample_get_llm n by blast
  note a = classify_email_returns_when_configured[where cfg = sample_settings
        and c = "ChatGoogleGenerativeAI ''test-key''" and llm = low_then_quota
        and rt = sample_runtime and eid = "''test_001''" and subj = "''URGENT: You won''"
        and bdy = "''Click here NOW to claim your prize!''" and sndr = "''scam@fake-lottery.com''",
        THEN conjunct1, rule_format, OF h]
  note b = classify_email_returns_when_configured[where cfg = default_settings
        and e = "ApiKeyNotFound ''gemini''" and llm = low_then_quota
        and rt = sample_runtime and eid = "''test_001''" and subj = "''URGENT: You won''"
        and bdy = "''Click here NOW to claim your prize!''" and sndr = "''scam@fake-lottery.com''",
        THEN conjunct2, THEN conjunct2, THEN conjunct2, rule_format, OF g]
  show ?thesis
    by (intro conjI) (rule sample_get_llm, rule n, rule sample_classify_email_low_quota,
        rule a, rule g, rule b)
qed

text \<open>
  Claim C1 as stated fails on a configuration error: with no API key, and with a
  provider that is not supported, \<open>classify_email\<close> raises the \<open>ValueError\<close> of
  \<open>get_api_key\<close>.
\<close>

theorem classify_email_raises_config_error:
  "classify_email sample_runtime default_settings (\<lambda>i. Replied reply_spam)
     ''test_001'' ''URGENT: You won'' ''Click here NOW to claim your prize!'' ''scam@fake-lottery.com''
   = Inl (ApiKeyNotFound ''gemini'')
   \<and> classify_email sample_runtime (sample_settings\<lparr> llm_provider := ''mistral'' \<rparr>)
        (\<lambda>i. Replied reply_spam)
     ''test_001'' ''URGENT: You won'' ''Click here NOW to claim your prize!'' ''scam@fake-lottery.com''
   = Inl (ApiKeyNotFound ''mistral'')"
  by (simp add: classify_email_def run_workflow_unfold classify_email_node_def get_llm_def
      get_api_key_def key_map_def default_settings_def sample_settings_def)

text \<open>
  Claim C10. A result of \<open>classify_email\<close> has exactly the six keys \<open>email_id\<close>,
  \<open>category\<close>, \<open>confidence\<close>, \<open>reasoning\<close>, \<open>keywords\<close> and
  \<open>processing_stage\<close>, it carries the \<open>email_id\<close> that was passed in, and its stage is
  one of \<open>classified\<close>, \<open>error_json_parse\<close>, \<open>error\<close>, \<open>reanalyzed\<close> and
  \<open>reanalysis_failed\<close>, never \<open>initialized\<close>.
\<close>

theorem classify_email_result_shape:
  assumes "classify_email rt cfg llm eid subj bdy sndr = Inr r"
  shows "map fst r = [''email_id'', ''category'', ''confidence'', ''reasoning'', ''keywords'',
                      ''processing_stage'']
    \<and> map_of r ''email_id'' = Some (JString eid)
    \<and> (\<exists>st. map_of r ''processing_stage'' = Some (JString st) \<and>
           (st = ''classified'' \<or> st = ''error_json_parse'' \<or> st = ''error'' \<or>
            st = ''reanalyzed'' \<or> st = ''reanalysis_failed'') \<and>
           st \<noteq> ''initialized'')"
proof -
  obtain s' trace where run: "run_workflow rt cfg llm (initial_state eid subj bdy sndr) = Inr (s', trace)"
    and r: "r = [(''email_id'', JString (email_id s')),
               (''category'', JString (category s')),
               (''confidence'', JFloat (confidence s')),
               (''reasoning'', reasoning s'),
               (''keywords'', keywords s'),
               (''processing_stage'', JString (processing_stage s'))]"
    using assms unfolding classify_email_def by (auto split: sum.splits)
  obtain s1 where c: "classify_email_node rt cfg (llm 0) (initial_state eid subj bdy sndr) = Inr s1" and
      d: "s' = s1 \<or> reanalyze_node rt cfg (llm 1) s1 = Inr s'"
    using run_workflow_cases[OF run] by blast
  have i: "email_id (initial_state eid subj bdy sndr) = eid" by (simp add: initial_state_def)
  note f1 = classify_node_frame[OF c]
  have id: "email_id s' = eid" using d f1 i reanalyze_node_frame[of rt cfg "llm 1" s1 s'] by auto
  have st: "processing_stage s' = ''classified'' \<or> processing_stage s' = ''error_json_parse'' \<or>
            processing_stage s' = ''error'' \<or> processing_stage s' = ''reanalyzed'' \<or>
            processing_stage s' = ''reanalysis_failed''"
    using d f1 reanalyze_node_frame[of rt cfg "llm 1" s1 s'] by auto
  have ni: "processing_stage s' \<noteq> ''initialized''" using st by auto
  show ?thesis unfolding r using id st ni by simp
qed

text \<open>
  The result of a run on a confident answer.
\<close>

theorem classify_email_result_shape_witness:
  "classify_email sample_runtime sample_settings (\<lambda>i. Replied reply_spam)
     ''test_001'' ''URGENT: You won'' ''Click here NOW to claim your prize!'' ''scam@fake-lottery.com''
   = Inr [(''email_id'', JString ''test_001''), (''category'', JString ''spam''),
          (''confidence'', JFloat (Fin (3 / 4))), (''reasoning'', JString ''prize''),
          (''keywords'', JArray [JString ''won'']), (''processing_stage'', JString ''classified'')]
   \<and> map fst [(''email_id'', JString ''test_001''), (''category'', JString ''spam''),
          (''confidence'', JFloat (Fin (3 / 4))), (''reasoning'', JString ''prize''),
          (''keywords'', JArray [JString ''won'']), (''processing_stage'', JString ''classified'')]
       = [''email_id'', ''category'', ''confidence'', ''reasoning'', ''keywords'', ''processing_stage'']"
  using classify_email_result_shape[OF sample_classify_email_spam] sample_classify_email_spam
  by blast

end
